theory Spec2Isabelle
  imports Main
begin

section \<open>Clock and time zones\<close>

text \<open>
  An instant is a number of milliseconds since the Unix epoch, as \<^verbatim>\<open>new Date()\<close> and
  \<^verbatim>\<open>moment()\<close> hold it. One operation reads the clock once: the parameter \<open>now\<close>.

  The zone database of moment-timezone is not part of the repository. It is a parameter
  \<open>z\<close>: the UTC offset, in minutes, of a named zone at an instant. Everything the code
  asks of a zoned moment is computed from the local wall-clock milliseconds.

  A calendar date (\<^verbatim>\<open>format('YYYY-MM-DD')\<close>, \<^verbatim>\<open>toISOString().split('T')[0]\<close>) is
  represented by its day number, the count of whole days since 1970-01-01; the two
  determine each other.
\<close>

type_synonym instant = int
type_synonym zonedb = "string \<Rightarrow> instant \<Rightarrow> int"
type_synonym date = int

definition msPerDay :: int where
  "msPerDay = 86400000"

definition localMillis :: "zonedb \<Rightarrow> string \<Rightarrow> instant \<Rightarrow> int" where
  "localMillis z tz t = t + z tz t * 60000"

definition tz_hour :: "zonedb \<Rightarrow> string \<Rightarrow> instant \<Rightarrow> int" where
  \<comment> \<open>\<^verbatim>\<open>moment().tz(tz).hour()\<close>\<close>
  "tz_hour z tz t = (localMillis z tz t mod msPerDay) div 3600000"

definition tz_minute :: "zonedb \<Rightarrow> string \<Rightarrow> instant \<Rightarrow> int" where
  \<comment> \<open>\<^verbatim>\<open>moment().tz(tz).minute()\<close>, printed by \<^verbatim>\<open>format('h:mm A')\<close>\<close>
  "tz_minute z tz t = (localMillis z tz t mod 3600000) div 60000"

definition tz_day :: "zonedb \<Rightarrow> string \<Rightarrow> instant \<Rightarrow> int" where
  \<comment> \<open>\<^verbatim>\<open>moment().tz(tz).day()\<close>, 0 = Sunday; 1970-01-01 was a Thursday\<close>
  "tz_day z tz t = (localMillis z tz t div msPerDay + 4) mod 7"

definition tz_date :: "zonedb \<Rightarrow> string \<Rightarrow> instant \<Rightarrow> date" where
  \<comment> \<open>\<^verbatim>\<open>moment().tz(tz).format('YYYY-MM-DD')\<close>\<close>
  "tz_date z tz t = localMillis z tz t div msPerDay"

definition utc_date :: "instant \<Rightarrow> date" where
  \<comment> \<open>\<^verbatim>\<open>new Date().toISOString().split('T')[0]\<close>\<close>
  "utc_date t = t div msPerDay"

definition absFloor :: "int \<Rightarrow> int \<Rightarrow> int" where
  \<comment> \<open>moment's \<^verbatim>\<open>absFloor(a / b)\<close>: the quotient rounded towards zero\<close>
  "absFloor a b = (if a < 0 then - ((- a) div b) else a div b)"

definition diff_days :: "zonedb \<Rightarrow> string \<Rightarrow> instant \<Rightarrow> instant \<Rightarrow> int" where
  \<comment> \<open>\<^verbatim>\<open>a.diff(b, 'days')\<close> for moments in zone \<open>tz\<close>: whole days between the two
      wall-clock times\<close>
  "diff_days z tz a b = absFloor (localMillis z tz a - localMillis z tz b) msPerDay"

definition js_rem :: "int \<Rightarrow> int \<Rightarrow> int" where
  \<comment> \<open>the \<^verbatim>\<open>%\<close> of JavaScript on integers: the sign follows the dividend\<close>
  "js_rem a b = a - b * absFloor a b"

definition defaultZone :: string where
  "defaultZone = ''America/Chicago''"

definition zoneOrDefault :: "string option \<Rightarrow> string" where
  \<comment> \<open>\<^verbatim>\<open>user.timezone || 'America/Chicago'\<close>: NULL and the empty string are falsy\<close>
  "zoneOrDefault tz = (case tz of None \<Rightarrow> defaultZone | Some n \<Rightarrow> if n = [] then defaultZone else n)"

section \<open>Strings\<close>

text \<open>Text is modelled on ASCII: one \<open>char\<close> per character.\<close>

definition isDigit :: "char \<Rightarrow> bool" where
  \<comment> \<open>the class \<^verbatim>\<open>\d\<close>\<close>
  "isDigit c = (c \<in> set ''0123456789'')"

definition isSpace :: "char \<Rightarrow> bool" where
  \<comment> \<open>the class \<^verbatim>\<open>\s\<close>, and what \<^verbatim>\<open>trim()\<close> removes\<close>
  "isSpace c = (c \<in> set [CHR '' '', CHR 0x09, CHR 0x0A, CHR 0x0B, CHR 0x0C, CHR 0x0D])"

definition upperChar :: "char \<Rightarrow> char" where
  "upperChar c = (case map_of (zip ''abcdefghijklmnopqrstuvwxyz'' ''ABCDEFGHIJKLMNOPQRSTUVWXYZ'') c of
                    Some d \<Rightarrow> d | None \<Rightarrow> c)"

definition lowerChar :: "char \<Rightarrow> char" where
  "lowerChar c = (case map_of (zip ''ABCDEFGHIJKLMNOPQRSTUVWXYZ'' ''abcdefghijklmnopqrstuvwxyz'') c of
                    Some d \<Rightarrow> d | None \<Rightarrow> c)"

definition toUpperCase :: "string \<Rightarrow> string" where
  "toUpperCase s = map upperChar s"

definition toLowerCase :: "string \<Rightarrow> string" where
  "toLowerCase s = map lowerChar s"

definition trim :: "string \<Rightarrow> string" where
  "trim s = rev (dropWhile isSpace (rev (dropWhile isSpace s)))"

definition startsWith :: "string \<Rightarrow> string \<Rightarrow> bool" where
  "startsWith s p = (take (length p) s = p)"

fun join :: "string \<Rightarrow> string list \<Rightarrow> string" where
  "join sep [] = []"
| "join sep [x] = x"
| "join sep (x # y # ys) = x @ sep @ join sep (y # ys)"

fun indexOf :: "int list \<Rightarrow> int \<Rightarrow> int" where
  \<comment> \<open>\<^verbatim>\<open>Array.prototype.indexOf\<close>: -1 when absent\<close>
  "indexOf [] x = -1"
| "indexOf (y # ys) x = (if y = x then 0 else (let i = indexOf ys x in if i < 0 then -1 else i + 1))"

definition digitChar :: "nat \<Rightarrow> char" where
  "digitChar n = ''0123456789'' ! (n mod 10)"

function natString :: "nat \<Rightarrow> string" where
  "natString n = (if n < 10 then [digitChar n] else natString (n div 10) @ [digitChar n])"
  by pat_completeness auto
termination
  by (relation "measure id") auto

definition numString :: "int \<Rightarrow> string" where
  \<comment> \<open>an integer inside a template literal\<close>
  "numString i = (if i < 0 then CHR ''-'' # natString (nat (- i)) else natString (nat i))"

fun replaceName :: "string \<Rightarrow> string \<Rightarrow> string" where
  \<comment> \<open>\<^verbatim>\<open>text.replace(/\{name\}/g, firstName)\<close>\<close>
  "replaceName [] nm = []"
| "replaceName (c # cs) nm =
     (if startsWith (c # cs) ''{name}'' then nm @ replaceName (drop 5 cs) nm
      else c # replaceName cs nm)"

function stripName :: "string \<Rightarrow> string" where
  \<comment> \<open>\<^verbatim>\<open>text.replace(/\{name\}[,\s]*/g, '')\<close>\<close>
  "stripName [] = []"
| "stripName (c # cs) =
     (if startsWith (c # cs) ''{name}''
      then stripName (dropWhile (\<lambda>d. d = CHR '','' \<or> isSpace d) (drop 5 cs))
      else c # stripName cs)"
  by pat_completeness auto
termination
  by (relation "measure length")
     (auto intro!: le_imp_less_Suc order_trans [OF length_dropWhile_le])

function collapseSpaces :: "string \<Rightarrow> string" where
  \<comment> \<open>\<^verbatim>\<open>text.replace(/\s+/g, ' ')\<close>\<close>
  "collapseSpaces [] = []"
| "collapseSpaces (c # cs) =
     (if isSpace c then CHR '' '' # collapseSpaces (dropWhile isSpace cs)
      else c # collapseSpaces cs)"
  by pat_completeness auto
termination
  by (relation "measure length")
     (auto intro!: le_imp_less_Suc length_dropWhile_le)

definition personalizeMessage :: "string \<Rightarrow> string option \<Rightarrow> string" where
  \<comment> \<open>the same method in MessageScheduler, MessageInjector and ResponseHandler; a
      NULL body is the empty string here, and the first name is inserted literally\<close>
  "personalizeMessage messageText firstName =
     (if messageText = [] then []
      else (case firstName of
              Some nm \<Rightarrow> if nm \<noteq> [] then replaceName messageText nm
                         else trim (collapseSpaces (stripName messageText))
            | None \<Rightarrow> trim (collapseSpaces (stripName messageText))))"

section \<open>The store\<close>

text \<open>
  The rows of the tracking and message databases that the scheduler, the injector and
  the response handler read and write. A nullable column is an \<open>option\<close>.

  What lies outside the repository is the environment \<open>env\<close>: the value of
  \<^verbatim>\<open>NODE_ENV\<close>, the answer of Twilio to \<^verbatim>\<open>messages.create\<close> (\<open>None\<close> when it
  resolves, \<open>Some e\<close> when it rejects with message \<open>e\<close>), and the time zone of the
  server process, which \<^verbatim>\<open>Date.prototype.getHours\<close> and \<^verbatim>\<open>setHours\<close> read:
  \<open>serverOffset\<close> is the offset in minutes of the server's zone at an instant,
  \<open>serverOffsetLocal\<close> the offset that the zone gives to a local wall-clock time.
\<close>

record user =
  phone_number :: string
  first_name :: "string option"
  protocol :: string
  user_type :: string
  current_sequence_position :: int
  total_messages_sent :: int
  subscription_status :: string
  trial_messages_sent :: int
  date_joined :: instant
  last_message_sent :: "instant option"
  timezone :: "string option"
  awaiting_response :: "string option"
  awaiting_response_since :: "instant option"
  stopped_at_position :: "int option"
  date_modified :: instant

record template =
  msg_id :: string
  msg_number :: "int option"
  msg_protocol :: string
  msg_category :: string
  msg_text :: string
  msg_active :: bool

record history_row =
  h_rowid :: int
  h_phone_number :: string
  h_message_id :: string
  h_sent_timestamp :: instant
  h_delivery_status :: string
  h_user_responded :: bool
  h_response_timestamp :: "instant option"

type_synonym sms = "string \<times> string \<times> string"

record environment =
  development :: bool
  twilio :: "string \<Rightarrow> string \<Rightarrow> string option"
  serverOffset :: "instant \<Rightarrow> int"
  serverOffsetLocal :: "int \<Rightarrow> int"

record store =
  users :: "string \<rightharpoonup> user"
  messages :: "template list"
  message_history :: "history_row list"
  daily_limits :: "string \<times> date \<rightharpoonup> int"
  outbox :: "sms list"

datatype error = TypeError string

datatype outcome = Sent | NotSent string

definition updateUser :: "(user \<Rightarrow> user) \<Rightarrow> string \<Rightarrow> (string \<rightharpoonup> user) \<Rightarrow> (string \<rightharpoonup> user)" where
  \<comment> \<open>\<^verbatim>\<open>UPDATE users SET ... WHERE phone_number = ?\<close>: no row, no change\<close>
  "updateUser f phoneNumber us =
     (case us phoneNumber of None \<Rightarrow> us | Some r \<Rightarrow> us(phoneNumber \<mapsto> f r))"

definition bumpDaily :: "(string \<times> date \<rightharpoonup> int) \<Rightarrow> string \<times> date \<Rightarrow> (string \<times> date \<rightharpoonup> int)" where
  \<comment> \<open>\<^verbatim>\<open>INSERT OR REPLACE INTO daily_limits ... COALESCE((SELECT messages_sent ...), 0) + 1\<close>\<close>
  "bumpDaily d k = d(k \<mapsto> (case d k of None \<Rightarrow> 0 | Some n \<Rightarrow> n) + 1)"

definition getMessage :: "store \<Rightarrow> string \<Rightarrow> template option" where
  \<comment> \<open>\<^verbatim>\<open>SELECT * FROM messages WHERE id = ? AND active = 1\<close>\<close>
  "getMessage s messageId = find (\<lambda>m. msg_id m = messageId \<and> msg_active m) (messages s)"

section \<open>The send function\<close>

text \<open>
  \<^verbatim>\<open>sendMessage\<close> of the application is the function handed to the scheduler, the
  injector and the response handler as \<^verbatim>\<open>sendMessageFunction\<close>. It never throws: its
  catch block answers \<^verbatim>\<open>{success: false, error}\<close>, here \<open>Some e\<close>. It writes to the
  tracking database that the three classes use: a row of \<^verbatim>\<open>message_history\<close> for
  every message that went out, and the awaiting state of the recipient when the text
  looks interactive. One variant of the application awaits the two writes and the other
  queues them; they are taken as done when the function returns, in the order of the
  calls, and the database as not failing. Every call is also appended to \<open>outbox\<close>,
  with the normalized recipient: what Twilio is given in production, and what the
  development mode logs instead of sending. The media attachments of an introduction
  message are left out.
\<close>

fun includesStr :: "string \<Rightarrow> string \<Rightarrow> bool" where
  \<comment> \<open>\<^verbatim>\<open>String.prototype.includes\<close>\<close>
  "includesStr [] sub = (sub = [])"
| "includesStr (c # cs) sub = (startsWith (c # cs) sub \<or> includesStr cs sub)"

definition sendMessage_normalizedPhone :: "string \<Rightarrow> string" where
  \<comment> \<open>the first lines of \<^verbatim>\<open>sendMessage\<close>\<close>
  "sendMessage_normalizedPhone phoneNumber =
     (let normalizedPhone = filter isDigit phoneNumber;
          normalizedPhone = (if \<not> startsWith normalizedPhone ''1'' \<and> length normalizedPhone = 10
                             then ''1'' @ normalizedPhone else normalizedPhone)
      in ''+'' @ normalizedPhone)"

definition maxRowid :: "history_row list \<Rightarrow> int option" where
  \<comment> \<open>\<^verbatim>\<open>SELECT MAX(rowid)\<close>: NULL over no rows\<close>
  "maxRowid rows = (case rows of [] \<Rightarrow> None
                    | r # rs \<Rightarrow> Some (fold (\<lambda>x m. max (h_rowid x) m) rs (h_rowid r)))"

definition insertHistory :: "instant \<Rightarrow> store \<Rightarrow> string \<Rightarrow> string \<Rightarrow> string \<Rightarrow> store" where
  \<comment> \<open>\<^verbatim>\<open>INSERT INTO message_history\<close>: the key \<^verbatim>\<open>id INTEGER PRIMARY KEY AUTOINCREMENT\<close>
      is the rowid, one more than the largest in the table, no row being ever deleted\<close>
  "insertHistory now s phoneNumber messageId status =
     s\<lparr>message_history := message_history s @
          [\<lparr>h_rowid = (case maxRowid (message_history s) of None \<Rightarrow> 1 | Some m \<Rightarrow> m + 1),
            h_phone_number = phoneNumber, h_message_id = messageId,
            h_sent_timestamp = now, h_delivery_status = status,
            h_user_responded = False, h_response_timestamp = None\<rparr>]\<rparr>"

definition sendMessage ::
  "environment \<Rightarrow> instant \<Rightarrow> store \<Rightarrow> string \<Rightarrow> string \<Rightarrow> string \<Rightarrow> store \<times> string option" where
  \<comment> \<open>the callers always pass a message id; the empty one is the falsy id\<close>
  "sendMessage env now s phoneNumber messageText messageId =
     (let normalizedPhone = sendMessage_normalizedPhone phoneNumber;
          s0 = s\<lparr>outbox := outbox s @ [(normalizedPhone, messageText, messageId)]\<rparr>
      in if development env then
           (insertHistory now s0 normalizedPhone
              (if messageId = [] then ''unknown'' else messageId) ''delivered'', None)
         else
           (case twilio env normalizedPhone messageText of
              Some e \<Rightarrow> (s0, Some e)
            | None \<Rightarrow>
                (let s1 = insertHistory now s0 normalizedPhone
                            (if messageId = [] then ''test_message'' else messageId) ''sent'';
                     s2 = (if messageId \<noteq> [] \<and>
                              (includesStr messageText ''A)'' \<or> includesStr messageText ''Reply:'')
                           then s1\<lparr>users := updateUser
                                     (\<lambda>r. r\<lparr>awaiting_response := Some messageId,
                                              awaiting_response_since := Some now\<rparr>)
                                     normalizedPhone (users s1)\<rparr>
                           else s1)
                 in (s2, None))))"

section \<open>MessageScheduler\<close>

datatype due = NotDue string | Due string "int option" "string option"

definition phase1Days :: "int list" where
  "phase1Days = [8, 10, 13, 17]"

definition checkPostTrialSchedule :: "user \<Rightarrow> int \<Rightarrow> due" where
  "checkPostTrialSchedule u daysSinceJoined =
     (if daysSinceJoined \<in> set phase1Days then
        (let messageOrder = indexOf phase1Days daysSinceJoined + 1
         in Due ''post-trial-phase1'' None (Some (''ptmb'' @ numString messageOrder)))
      else if daysSinceJoined \<in> set [25, 33, 41] then Due ''post-trial-phase2'' None None
      else if daysSinceJoined \<in> set [71, 101, 131] then Due ''post-trial-phase3'' None None
      else if daysSinceJoined \<ge> 191 \<and> js_rem (daysSinceJoined - 191) 60 = 0
        then Due ''post-trial-phase4'' None None
      else NotDue ''Not scheduled for post-trial message today'')"

definition daysSinceJoined :: "zonedb \<Rightarrow> instant \<Rightarrow> user \<Rightarrow> int" where
  "daysSinceJoined z now u = diff_days z (zoneOrDefault (timezone u)) now (date_joined u)"

definition daysSinceLastMessage :: "zonedb \<Rightarrow> instant \<Rightarrow> user \<Rightarrow> int" where
  "daysSinceLastMessage z now u =
     diff_days z (zoneOrDefault (timezone u)) now
       (case last_message_sent u of Some t \<Rightarrow> t | None \<Rightarrow> date_joined u)"

definition isUserDueForMessage :: "zonedb \<Rightarrow> instant \<Rightarrow> user \<Rightarrow> due" where
  "isUserDueForMessage z now u =
     (if user_type u = ''trial'' then
        (if trial_messages_sent u \<ge> 7 then checkPostTrialSchedule u (daysSinceJoined z now u)
         else if daysSinceLastMessage z now u \<ge> 1
           then Due ''trial'' (Some (trial_messages_sent u + 1)) None
         else NotDue ''Not due for message yet'')
      else if user_type u = ''subscriber'' then
        (if current_sequence_position u \<le> 30 then
           (if daysSinceLastMessage z now u \<ge> 1
              then Due ''sequence'' (Some (current_sequence_position u)) None
            else NotDue ''Not due for message yet'')
         else
           (if daysSinceLastMessage z now u \<ge> 2 then Due ''algorithm'' None None
            else NotDue ''Not due for message yet''))
      else NotDue ''Not due for message yet'')"

definition pickRandom :: "nat \<Rightarrow> 'a list \<Rightarrow> 'a option" where
  \<comment> \<open>\<^verbatim>\<open>ORDER BY RANDOM() LIMIT 1\<close>, the draw being the parameter \<open>rnd\<close>\<close>
  "pickRandom rnd xs = (if xs = [] then None else Some (xs ! (rnd mod length xs)))"

definition getNextMessage ::
  "nat \<Rightarrow> store \<Rightarrow> user \<Rightarrow> string \<Rightarrow> int option \<Rightarrow> error + template option" where
  \<comment> \<open>The caller passes \<^verbatim>\<open>isDue.position\<close>, which the phase-1 result does not have.
      The phase-1 branch reads \<^verbatim>\<open>position.messageId\<close>: of a missing position that
      throws inside the promise, which rejects; of a number (never passed with this type)
      it is undefined and the query finds no row.\<close>
  "getNextMessage rnd s u messageType position =
     (if messageType = ''trial'' \<or> messageType = ''sequence'' then
        Inr (find (\<lambda>m. position \<noteq> None \<and> msg_number m = position \<and>
                        msg_protocol m = protocol u \<and> msg_active m) (messages s))
      else if messageType = ''algorithm'' then
        Inr (pickRandom rnd (filter (\<lambda>m. msg_number m = None \<and>
                        msg_protocol m = protocol u \<and> msg_active m) (messages s)))
      else if messageType = ''post-trial-phase1'' then
        (case position of
           None \<Rightarrow> Inl (TypeError ''Cannot read properties of undefined (reading 'messageId')'')
         | Some n \<Rightarrow> Inr None)
      else
        Inr (pickRandom rnd (filter (\<lambda>m. msg_category m = ''Post-Trial'' \<and> msg_active m)
                        (messages s))))"

text \<open>The result object of \<^verbatim>\<open>MessageScheduler.checkDailyLimit\<close>; \<open>dc_userTimezone\<close> is its
  field \<^verbatim>\<open>userTimezone\<close>.\<close>

record daily_check =
  messagesSentToday :: int
  dc_userTimezone :: string
  localDate :: date

definition checkDailyLimit :: "zonedb \<Rightarrow> instant \<Rightarrow> store \<Rightarrow> string \<Rightarrow> daily_check" where
  "checkDailyLimit z now s phoneNumber =
     (let tz = zoneOrDefault (case users s phoneNumber of None \<Rightarrow> None | Some r \<Rightarrow> timezone r);
          today = tz_date z tz now
      in \<lparr>messagesSentToday = (case daily_limits s (phoneNumber, today) of None \<Rightarrow> 0 | Some n \<Rightarrow> n),
          dc_userTimezone = tz, localDate = today\<rparr>)"

definition updateUserProgress :: "zonedb \<Rightarrow> instant \<Rightarrow> store \<Rightarrow> user \<Rightarrow> string \<Rightarrow> store" where
  "updateUserProgress z now s u messageType =
     (let today = tz_date z (zoneOrDefault (timezone u)) now;
          upd = (\<lambda>r. r\<lparr>total_messages_sent := total_messages_sent r + 1,
                       last_message_sent := Some now,
                       date_modified := now,
                       trial_messages_sent :=
                         (if messageType = ''trial'' then trial_messages_sent r + 1
                          else trial_messages_sent r),
                       current_sequence_position :=
                         (if messageType \<noteq> ''trial'' \<and> messageType = ''sequence''
                          then current_sequence_position r + 1
                          else current_sequence_position r)\<rparr>)
      in s\<lparr>users := updateUser upd (phone_number u) (users s),
           daily_limits := bumpDaily (daily_limits s) (phone_number u, today)\<rparr>)"

definition twoDigits :: "int \<Rightarrow> string" where
  "twoDigits m = (if m < 10 then CHR ''0'' # numString m else numString m)"

definition formatTime :: "int \<Rightarrow> int \<Rightarrow> string" where
  \<comment> \<open>\<^verbatim>\<open>format('h:mm A')\<close>\<close>
  "formatTime h m =
     numString (if h mod 12 = 0 then 12 else h mod 12) @ '':'' @ twoDigits m @
     (if h < 12 then '' AM'' else '' PM'')"

definition showZone :: "string option \<Rightarrow> string" where
  \<comment> \<open>\<^verbatim>\<open>${user.timezone}\<close> inside a template literal\<close>
  "showZone tz = (case tz of None \<Rightarrow> ''null'' | Some n \<Rightarrow> n)"

definition checkUserForMessage ::
  "zonedb \<Rightarrow> environment \<Rightarrow> nat \<Rightarrow> instant \<Rightarrow> store \<Rightarrow> user \<Rightarrow> error + store \<times> outcome" where
  \<comment> \<open>Of the result object only \<^verbatim>\<open>sent\<close> and \<^verbatim>\<open>reason\<close> are kept; the other fields
      feed the console.\<close>
  "checkUserForMessage z env rnd now s u =
     (let tz = zoneOrDefault (timezone u);
          userHour = tz_hour z tz now;
          userDay = tz_day z tz now
      in if userDay = 0 then
           Inr (s, NotSent (''Sunday rest day in '' @ showZone (timezone u)))
         else if userHour < 9 \<or> userHour \<ge> 18 then
           Inr (s, NotSent (''Outside sending hours in '' @ showZone (timezone u) @ '' ('' @
                            formatTime userHour (tz_minute z tz now) @ '')''))
         else if messagesSentToday (checkDailyLimit z now s (phone_number u)) \<ge> 4 then
           Inr (s, NotSent ''Daily limit reached (4 messages)'')
         else
           (case isUserDueForMessage z now u of
              NotDue r \<Rightarrow> Inr (s, NotSent r)
            | Due messageType position messageId \<Rightarrow>
                (case getNextMessage rnd s u messageType position of
                   Inl e \<Rightarrow> Inl e
                 | Inr None \<Rightarrow> Inr (s, NotSent ''No message found for user position'')
                 | Inr (Some m) \<Rightarrow>
                     (let personalizedMessage = personalizeMessage (msg_text m) (first_name u);
                          (s1, res) = sendMessage env now s (phone_number u)
                                        personalizedMessage (msg_id m)
                      in case res of
                           Some e \<Rightarrow> Inr (s1, NotSent (''Send failed: '' @ e))
                         | None \<Rightarrow> Inr (updateUserProgress z now s1 u messageType, Sent)))))"

section \<open>MessageInjector\<close>

text \<open>A row of \<^verbatim>\<open>getPendingInjections\<close>: the pending message joined with its user.\<close>

record pending_message =
  pm_id :: int
  pm_phone_number :: string
  pm_message_id :: string
  pm_first_name :: "string option"
  pm_timezone :: "string option"

definition checkDailyLimit_injector :: "instant \<Rightarrow> store \<Rightarrow> string \<Rightarrow> int" where
  \<comment> \<open>\<^verbatim>\<open>MessageInjector.checkDailyLimit\<close>; the result object has the one field
      \<^verbatim>\<open>messagesSentToday\<close>\<close>
  "checkDailyLimit_injector now s phoneNumber =
     (let today = utc_date now
      in case daily_limits s (phoneNumber, today) of None \<Rightarrow> 0 | Some n \<Rightarrow> n)"

definition isInSendingWindow :: "zonedb \<Rightarrow> instant \<Rightarrow> string option \<Rightarrow> error + string option" where
  \<comment> \<open>\<open>Inr None\<close> is \<^verbatim>\<open>{canSend: true}\<close>, \<open>Inr (Some r)\<close> is
      \<^verbatim>\<open>{canSend: false, reason: r}\<close>. The default parameter replaces only
      \<^verbatim>\<open>undefined\<close>; the caller passes the column, which is a string or NULL. Of a
      falsy name \<^verbatim>\<open>moment().tz(name)\<close> returns undefined, and \<^verbatim>\<open>.hour()\<close> throws.\<close>
  "isInSendingWindow z now userTimezone =
     (case userTimezone of
        None \<Rightarrow> Inl (TypeError ''Cannot read properties of undefined (reading 'hour')'')
      | Some tz \<Rightarrow>
          if tz = [] then Inl (TypeError ''Cannot read properties of undefined (reading 'hour')'')
          else (let hour = tz_hour z tz now
                in if hour < 9 \<or> hour \<ge> 18
                   then Inr (Some ''Outside sending hours (9 AM - 6 PM)'')
                   else Inr None))"

definition updateUserAfterInjection :: "instant \<Rightarrow> store \<Rightarrow> string \<Rightarrow> store" where
  "updateUserAfterInjection now s phoneNumber =
     (let today = utc_date now;
          upd = (\<lambda>r. r\<lparr>total_messages_sent := total_messages_sent r + 1,
                       last_message_sent := Some now,
                       date_modified := now\<rparr>)
      in s\<lparr>users := updateUser upd phoneNumber (users s),
           daily_limits := bumpDaily (daily_limits s) (phoneNumber, today)\<rparr>)"

definition processSingleInjection ::
  "zonedb \<Rightarrow> environment \<Rightarrow> instant \<Rightarrow> store \<Rightarrow> pending_message \<Rightarrow> error + store \<times> outcome" where
  "processSingleInjection z env now s pendingMessage =
     (if checkDailyLimit_injector now s (pm_phone_number pendingMessage) \<ge> 4 then
        Inr (s, NotSent ''Daily limit reached (4 messages)'')
      else
        (case isInSendingWindow z now (pm_timezone pendingMessage) of
           Inl e \<Rightarrow> Inl e
         | Inr (Some r) \<Rightarrow> Inr (s, NotSent r)
         | Inr None \<Rightarrow>
             (case getMessage s (pm_message_id pendingMessage) of
                None \<Rightarrow> Inr (s, NotSent ''Message not found in database'')
              | Some m \<Rightarrow>
                  (let personalizedMessage =
                         personalizeMessage (msg_text m) (pm_first_name pendingMessage);
                       (s1, res) = sendMessage env now s (pm_phone_number pendingMessage)
                                     personalizedMessage (pm_message_id pendingMessage)
                   in case res of
                        Some e \<Rightarrow> Inr (s1, NotSent (''Send failed: '' @ e))
                      | None \<Rightarrow>
                          Inr (updateUserAfterInjection now s1 (pm_phone_number pendingMessage),
                               Sent)))))"

section \<open>ResponseHandler\<close>

datatype reply = Handled string string | NotHandled | Failed string

text \<open>
  \<open>Handled action message\<close> is \<^verbatim>\<open>{handled: true, action, message}\<close>, \<open>NotHandled\<close> is
  \<^verbatim>\<open>{handled: false}\<close> and \<open>Failed e\<close> is \<^verbatim>\<open>{handled: false, error: e}\<close>, the value of
  the catch block.
\<close>

fun handled :: "reply \<Rightarrow> bool" where
  "handled (Handled a m) = True"
| "handled NotHandled = False"
| "handled (Failed e) = False"

definition dq :: string where
  "dq = [CHR 0x22]"

definition normalizePhoneNumber :: "string \<Rightarrow> string" where
  \<comment> \<open>\<^verbatim>\<open>ResponseHandler.normalizePhoneNumber\<close>\<close>
  "normalizePhoneNumber phoneNumber =
     (let normalized = filter isDigit phoneNumber;
          normalized = (if \<not> startsWith normalized ''1'' \<and> length normalized = 10
                        then ''1'' @ normalized else normalized)
      in ''+'' @ normalized)"

definition normalizePhoneNumber_sync :: "string option \<Rightarrow> string option" where
  \<comment> \<open>\<^verbatim>\<open>WordPressSync.normalizePhoneNumber\<close>, repeated in test-phone-matching.js;
      \<open>None\<close> is \<^verbatim>\<open>null\<close>\<close>
  "normalizePhoneNumber_sync phoneNumber =
     (case phoneNumber of
        None \<Rightarrow> None
      | Some p \<Rightarrow>
          if p = [] then None
          else (let normalized = filter isDigit p;
                    normalized = (if length normalized = 10 then ''1'' @ normalized else normalized)
                in if length normalized \<noteq> 11 \<or> \<not> startsWith normalized ''1'' then None
                   else Some (''+'' @ normalized)))"

definition getUser :: "store \<Rightarrow> string \<Rightarrow> user option" where
  "getUser s phoneNumber = users s phoneNumber"

definition nameOf :: "user option \<Rightarrow> string option" where
  \<comment> \<open>\<^verbatim>\<open>user?.first_name\<close>\<close>
  "nameOf u = (case u of None \<Rightarrow> None | Some r \<Rightarrow> first_name r)"

definition nameOrEmpty :: "string option \<Rightarrow> string" where
  \<comment> \<open>\<^verbatim>\<open>first_name || ''\<close>\<close>
  "nameOrEmpty n = (case n of None \<Rightarrow> [] | Some x \<Rightarrow> x)"

definition stopUser :: "instant \<Rightarrow> store \<Rightarrow> string \<Rightarrow> store" where
  "stopUser now s phoneNumber =
     s\<lparr>users := updateUser (\<lambda>r. r\<lparr>subscription_status := ''stopped'',
                                     stopped_at_position := Some (current_sequence_position r),
                                     date_modified := now\<rparr>) phoneNumber (users s)\<rparr>"

definition startUser :: "instant \<Rightarrow> store \<Rightarrow> string \<Rightarrow> store" where
  "startUser now s phoneNumber =
     s\<lparr>users := updateUser (\<lambda>r. r\<lparr>subscription_status :=
                                       (if user_type r = ''trial'' then ''trial'' else ''active''),
                                     date_modified := now\<rparr>) phoneNumber (users s)\<rparr>"

definition resetUser :: "instant \<Rightarrow> store \<Rightarrow> string \<Rightarrow> store" where
  "resetUser now s phoneNumber =
     s\<lparr>users := updateUser (\<lambda>r. r\<lparr>current_sequence_position := 1,
                                     trial_messages_sent := 0,
                                     subscription_status := ''active'',
                                     date_modified := now\<rparr>) phoneNumber (users s)\<rparr>"

definition clearAwaitingResponse :: "store \<Rightarrow> string \<Rightarrow> store" where
  "clearAwaitingResponse s phoneNumber =
     s\<lparr>users := updateUser (\<lambda>r. r\<lparr>awaiting_response := None,
                                     awaiting_response_since := None\<rparr>) phoneNumber (users s)\<rparr>"

definition sendSystemMessage :: "environment \<Rightarrow> instant \<Rightarrow> store \<Rightarrow> string \<Rightarrow> string \<Rightarrow> store" where
  "sendSystemMessage env now s phoneNumber messageId =
     (case getMessage s messageId of
        None \<Rightarrow> s
      | Some m \<Rightarrow>
          fst (sendMessage env now s phoneNumber
                 (personalizeMessage (msg_text m) (nameOf (getUser s phoneNumber))) messageId))"

definition handleSystemCommands ::
  "environment \<Rightarrow> instant \<Rightarrow> store \<Rightarrow> string \<Rightarrow> string \<Rightarrow> store \<times> reply" where
  "handleSystemCommands env now s phoneNumber message =
     (let user = getUser s phoneNumber
      in if message = ''STOP'' then
           (sendSystemMessage env now (stopUser now s phoneNumber) phoneNumber ''34453cds'',
            Handled ''stopped'' ''User stopped successfully'')
         else if message = ''START'' then
           (sendSystemMessage env now (startUser now s phoneNumber) phoneNumber ''3452cds3'',
            Handled ''started'' ''User restarted successfully'')
         else if message = ''RESET'' then
           (if (case user of None \<Rightarrow> True | Some r \<Rightarrow> user_type r \<noteq> ''subscriber'') then
              (fst (sendMessage env now s phoneNumber
                 ''RESET is only available for subscribers. Upgrade at healthytext.com to access this feature!''
                 ''reset_denied''),
               Handled ''reset_denied'' ''Reset denied - trial user'')
            else
              (fst (sendMessage env now (resetUser now s phoneNumber) phoneNumber
                 (''Welcome back '' @ nameOrEmpty (nameOf user) @
                  ''! Your Elevate sequence has been reset to message 1. Ready for a fresh start!'')
                 ''reset_confirm''),
               Handled ''reset'' ''User sequence reset successfully''))
         else (s, NotHandled))"

definition crisisKeywords :: "(string \<times> string) list" where
  "crisisKeywords =
     [(''HELP'', ''help_response''),
      (''ANXIETY'', ''anxiety_response''),
      (''STRESS'', ''stress_response''),
      (''PANIC'', ''panic_response''),
      (''CRISIS'', ''crisis_response''),
      (''POSITIVE'', ''positive_response''),
      (''AFFIRM'', ''positive_response''),
      (''BREATHE'', ''breathe_response''),
      (''CALM'', ''calm_response'')]"

definition fallbackResponses :: "(string \<times> string) list" where
  "fallbackResponses =
     [(''HELP'', ''We're here to support you. If this is an emergency, please call 911. For mental health support, call 988 (Suicide & Crisis Lifeline). Visit healthytext.com for more resources.''),
      (''ANXIETY'', ''Take a deep breath. You're safe right now. Try the 4-7-8 technique: breathe in for 4, hold for 7, out for 8. Repeat 3 times. You've got this.''),
      (''STRESS'', ''Stress is temporary. Take 5 slow, deep breaths. Focus on what you can control right now. You're stronger than you think.''),
      (''PANIC'', ''You're experiencing panic, but you're safe. Ground yourself: name 5 things you see, 4 you hear, 3 you feel, 2 you smell, 1 you taste. This will pass.''),
      (''CRISIS'', ''If you're in crisis, please reach out immediately: 911 for emergencies, 988 for suicide prevention. You matter and help is available 24/7.''),
      (''BREATHE'', ''Let's breathe together. In for 4... hold for 4... out for 4... hold for 4. Repeat this pattern. Focus only on your breath.''),
      (''CALM'', ''Finding calm in the storm. Close your eyes if you can. Take 3 deep breaths. Remember: this feeling is temporary, but your strength is permanent.'')]"

definition sendFallbackCrisisResponse :: "environment \<Rightarrow> instant \<Rightarrow> store \<Rightarrow> string \<Rightarrow> string \<Rightarrow> store" where
  "sendFallbackCrisisResponse env now s phoneNumber keyword =
     (let responseText = (case map_of fallbackResponses keyword of
                            Some t \<Rightarrow> t
                          | None \<Rightarrow> the (map_of fallbackResponses ''HELP''))
      in fst (sendMessage env now s phoneNumber responseText
                (''crisis_'' @ toLowerCase keyword)))"

definition handleCrisisKeywords ::
  "environment \<Rightarrow> instant \<Rightarrow> store \<Rightarrow> string \<Rightarrow> string \<Rightarrow> store \<times> reply" where
  \<comment> \<open>The lookup is among the own keys of the table: the caller passes upper-cased
      text, and every inherited property name has a lower-case letter.\<close>
  "handleCrisisKeywords env now s phoneNumber message =
     (case map_of crisisKeywords message of
        Some responseMessageId \<Rightarrow>
          (let s1 = (case getMessage s responseMessageId of
                       Some crisisMessage \<Rightarrow>
                         fst (sendMessage env now s phoneNumber
                                (personalizeMessage (msg_text crisisMessage)
                                   (nameOf (getUser s phoneNumber)))
                                responseMessageId)
                     | None \<Rightarrow> sendFallbackCrisisResponse env now s phoneNumber message)
           in (s1, Handled ''crisis_support''
                     (''Crisis keyword '' @ dq @ message @ dq @ '' handled'')))
      | None \<Rightarrow> (s, NotHandled))"

fun parenMatches :: "string \<Rightarrow> string list" where
  \<comment> \<open>\<^verbatim>\<open>messageText.match(/[A-D]\)/g)\<close>, the empty list for \<^verbatim>\<open>null\<close>\<close>
  "parenMatches (c # d # cs) =
     (if c \<in> set ''ABCD'' \<and> d = CHR '')'' then [c, d] # parenMatches cs
      else parenMatches (d # cs))"
| "parenMatches cs = []"

fun slashMatches :: "string \<Rightarrow> string list" where
  \<comment> \<open>\<^verbatim>\<open>messageText.match(/[A-D](?=\/|$)/g)\<close>, the empty list for \<^verbatim>\<open>null\<close>\<close>
  "slashMatches [] = []"
| "slashMatches (c # cs) =
     (if c \<in> set ''ABCD'' \<and> (case cs of [] \<Rightarrow> True | d # ds \<Rightarrow> d = CHR ''/'')
      then [c] # slashMatches cs else slashMatches cs)"

definition extractResponseOptions :: "string \<Rightarrow> string list" where
  "extractResponseOptions messageText =
     (if messageText = [] then []
      else (let optionsMatch = parenMatches messageText
            in if optionsMatch \<noteq> [] then map (remove1 (CHR '')'')) optionsMatch
               else (let slashPattern = slashMatches messageText
                     in if slashPattern \<noteq> [] then slashPattern else [])))"

definition awaitingSince :: "user \<Rightarrow> instant" where
  \<comment> \<open>\<^verbatim>\<open>new Date(user.awaiting_response_since)\<close>: of NULL it is the epoch\<close>
  "awaitingSince u = (case awaiting_response_since u of None \<Rightarrow> 0 | Some t \<Rightarrow> t)"

definition setHoursPlus24 :: "environment \<Rightarrow> instant \<Rightarrow> instant" where
  \<comment> \<open>\<^verbatim>\<open>d.setHours(d.getHours() + 24)\<close>: the wall-clock time of the server's zone is
      moved on by one day and read back as an instant\<close>
  "setHoursPlus24 env t =
     (let localTime = t + serverOffset env t * 60000 + 24 * 3600000
      in localTime - serverOffsetLocal env localTime * 60000)"

definition recordInteractiveResponse ::
  "instant \<Rightarrow> store \<Rightarrow> string \<Rightarrow> string \<Rightarrow> string \<Rightarrow> store" where
  "recordInteractiveResponse now s phoneNumber messageId response =
     (let mx = maxRowid (filter (\<lambda>h. h_phone_number h = phoneNumber \<and> h_message_id h = messageId)
                           (message_history s))
      in s\<lparr>message_history :=
             map (\<lambda>h. if h_phone_number h = phoneNumber \<and> h_message_id h = messageId \<and>
                         Some (h_rowid h) = mx
                      then h\<lparr>h_user_responded := True, h_response_timestamp := Some now\<rparr>
                      else h)
                 (message_history s)\<rparr>)"

definition handleInteractiveResponse ::
  "environment \<Rightarrow> instant \<Rightarrow> store \<Rightarrow> string \<Rightarrow> string \<Rightarrow> store \<times> reply" where
  "handleInteractiveResponse env now s phoneNumber response =
     (case getUser s phoneNumber of
        None \<Rightarrow> (s, NotHandled)
      | Some user \<Rightarrow>
          (case awaiting_response user of
             None \<Rightarrow> (s, NotHandled)
           | Some awaiting \<Rightarrow>
               if awaiting = [] then (s, NotHandled)
               else
                 (let responseWindow = setHoursPlus24 env (awaitingSince user)
                  in if now > responseWindow then (clearAwaitingResponse s phoneNumber, NotHandled)
                     else
                       (case getMessage s awaiting of
                          None \<Rightarrow> (clearAwaitingResponse s phoneNumber, NotHandled)
                        | Some originalMessage \<Rightarrow>
                            (let validOptions = extractResponseOptions (msg_text originalMessage)
                             in if length validOptions = 0 then
                                  (clearAwaitingResponse s phoneNumber, NotHandled)
                                else if response \<notin> set validOptions then
                                  (let optionsText = join '' or '' validOptions
                                   in (fst (sendMessage env now s phoneNumber
                                              (''Please respond with '' @ optionsText @
                                               '' only. What's your choice?'')
                                              ''invalid_response''),
                                       Handled ''invalid_response''
                                         (''Invalid response '' @ dq @ response @ dq @
                                          '' - valid options: '' @ optionsText)))
                                else
                                  (let followUpId = awaiting @ toLowerCase response;
                                       s1 = (case getMessage s followUpId of
                                               Some followUpMessage \<Rightarrow>
                                                 fst (sendMessage env now s phoneNumber
                                                        (personalizeMessage (msg_text followUpMessage)
                                                           (first_name user))
                                                        followUpId)
                                             | None \<Rightarrow>
                                                 fst (sendMessage env now s phoneNumber
                                                        ''Thanks for your response! Your wellness journey continues.''
                                                        ''generic_followup''));
                                       s2 = recordInteractiveResponse now s1 phoneNumber awaiting response;
                                       s3 = clearAwaitingResponse s2 phoneNumber
                                   in (s3, Handled ''interactive_response''
                                             (''Interactive response '' @ dq @ response @ dq @
                                              '' processed''))))))))"

definition handleUnrecognizedMessage ::
  "environment \<Rightarrow> instant \<Rightarrow> store \<Rightarrow> string \<Rightarrow> string \<Rightarrow> store \<times> reply" where
  "handleUnrecognizedMessage env now s phoneNumber originalMessage =
     (let helpText = ''Hi '' @ nameOrEmpty (nameOf (getUser s phoneNumber)) @
                     ''! Thanks for your message. '' @
                     ''Reply HELP for support, or visit healthytext.com for more options. '' @
                     ''Text STOP to unsubscribe.''
      in (fst (sendMessage env now s phoneNumber helpText ''unrecognized_response''),
          Handled ''unrecognized'' ''Sent help response for unrecognized message''))"

definition processIncomingMessage ::
  "environment \<Rightarrow> instant \<Rightarrow> store \<Rightarrow> string option \<Rightarrow> string option \<Rightarrow> store \<times> reply" where
  \<comment> \<open>An argument the webhook did not receive is \<open>None\<close>; calling a method on it
      throws, and the catch block answers.\<close>
  "processIncomingMessage env now s phoneNumber messageBody =
     (case phoneNumber of
        None \<Rightarrow> (s, Failed ''Cannot read properties of undefined (reading 'replace')'')
      | Some p \<Rightarrow>
          (case messageBody of
             None \<Rightarrow> (s, Failed ''Cannot read properties of undefined (reading 'trim')'')
           | Some b \<Rightarrow>
               (let normalizedPhone = normalizePhoneNumber p;
                    cleanMessage = toUpperCase (trim b);
                    (s1, commandResult) = handleSystemCommands env now s normalizedPhone cleanMessage
                in if handled commandResult then (s1, commandResult)
                   else
                     (let (s2, crisisResult) = handleCrisisKeywords env now s1 normalizedPhone cleanMessage
                      in if handled crisisResult then (s2, crisisResult)
                         else
                           (let (s3, interactiveResult) =
                                  handleInteractiveResponse env now s2 normalizedPhone cleanMessage
                            in if handled interactiveResult then (s3, interactiveResult)
                               else handleUnrecognizedMessage env now s3 normalizedPhone b)))))"

section \<open>Observations and sample data\<close>

fun isDue :: "due \<Rightarrow> bool" where
  \<comment> \<open>the field \<^verbatim>\<open>due\<close> of the evaluator's result\<close>
  "isDue (NotDue r) = False"
| "isDue (Due t p i) = True"

definition inSendingHours :: "int \<Rightarrow> bool" where
  \<comment> \<open>the negation of \<^verbatim>\<open>hour < 9 || hour >= 18\<close>\<close>
  "inSendingHours h = (\<not> (h < 9 \<or> h \<ge> 18))"

definition usZones :: zonedb where
  \<comment> \<open>a zone table for the examples: the standard-time offsets, as in January\<close>
  "usZones tz t = (if tz = ''America/Los_Angeles'' then - 480
                   else if tz = ''America/New_York'' then - 300 else - 360)"

definition jan2024 :: "int \<Rightarrow> int \<Rightarrow> int \<Rightarrow> instant" where
  \<comment> \<open>day \<open>d\<close> of January 2024 at \<open>h:m\<close> UTC; 1 January 2024 was a Monday\<close>
  "jan2024 d h m = 1704067200000 + (d - 1) * 86400000 + h * 3600000 + m * 60000"

definition nov2024 :: "int \<Rightarrow> int \<Rightarrow> int \<Rightarrow> instant" where
  \<comment> \<open>day \<open>d\<close> of November 2024 at \<open>h:m\<close> UTC; 3 November 2024 was a Sunday\<close>
  "nov2024 d h m = 1730419200000 + (d - 1) * 86400000 + h * 3600000 + m * 60000"

definition delivers :: environment where
  \<comment> \<open>production, Twilio accepts every message, the server runs on UTC\<close>
  "delivers = \<lparr>development = False, twilio = (\<lambda>p b. None),
                serverOffset = (\<lambda>t. 0), serverOffsetLocal = (\<lambda>t. 0)\<rparr>"

definition mar2024 :: "int \<Rightarrow> int \<Rightarrow> int \<Rightarrow> instant" where
  \<comment> \<open>day \<open>d\<close> of March 2024 at \<open>h:m\<close> UTC\<close>
  "mar2024 d h m = 1709251200000 + (d - 1) * 86400000 + h * 3600000 + m * 60000"

definition chicagoServer :: environment where
  \<comment> \<open>production on a server whose zone is America/Chicago, in 2024: daylight time
      (UTC-5) begins on 10 March at 2:00, which is 8:00 UTC, and ends on 3 November at
      2:00, which is 7:00 UTC; a wall-clock time that the change skips or repeats is read
      with the offset before the change\<close>
  "chicagoServer =
     \<lparr>development = False, twilio = (\<lambda>p b. None),
      serverOffset = (\<lambda>t. if mar2024 10 8 0 \<le> t \<and> t < nov2024 3 7 0 then - 300 else - 360),
      serverOffsetLocal =
        (\<lambda>l. if mar2024 10 3 0 \<le> l \<and> l < nov2024 3 2 0 then - 300 else - 360)\<rparr>"

definition ann :: user where
  "ann = \<lparr>phone_number = ''+13125550100'', first_name = Some ''Ann'', protocol = ''Elevate'',
          user_type = ''trial'', current_sequence_position = 1, total_messages_sent = 7,
          subscription_status = ''trial'', trial_messages_sent = 7,
          date_joined = jan2024 1 15 0, last_message_sent = Some (jan2024 7 16 0),
          timezone = Some ''America/Chicago'', awaiting_response = None,
          awaiting_response_since = None, stopped_at_position = None,
          date_modified = jan2024 7 16 0\<rparr>"

definition bob :: user where
  "bob = \<lparr>phone_number = ''+12135550111'', first_name = Some ''Bob'', protocol = ''Elevate'',
          user_type = ''subscriber'', current_sequence_position = 4, total_messages_sent = 3,
          subscription_status = ''active'', trial_messages_sent = 0,
          date_joined = jan2024 1 18 0, last_message_sent = Some (jan2024 5 18 0),
          timezone = Some ''America/Los_Angeles'', awaiting_response = None,
          awaiting_response_since = None, stopped_at_position = None,
          date_modified = jan2024 5 18 0\<rparr>"


definition dailyFour :: template where
  "dailyFour = \<lparr>msg_id = ''4'', msg_number = Some 4, msg_protocol = ''Elevate'',
                 msg_category = ''Daily'', msg_text = ''Hi {name}, keep going today.'',
                 msg_active = True\<rparr>"

definition checkIn :: template where
  "checkIn = \<lparr>msg_id = ''q2'', msg_number = Some 2, msg_protocol = ''Elevate'',
               msg_category = ''Check-in'',
               msg_text = ''How do you feel today? A) Great B) Okay C) Tired D) Stressed'',
               msg_active = True\<rparr>"

definition checkInB :: template where
  "checkInB = \<lparr>msg_id = ''q2b'', msg_number = None, msg_protocol = ''Elevate'',
                msg_category = ''Check-in'', msg_text = ''Okay is fine, {name}. Keep going.'',
                msg_active = True\<rparr>"

definition openQuestion :: template where
  "openQuestion = \<lparr>msg_id = ''q9'', msg_number = Some 9, msg_protocol = ''Elevate'',
                    msg_category = ''Check-in'', msg_text = ''How was your week?'',
                    msg_active = True\<rparr>"

definition teamNote :: template where
  "teamNote = \<lparr>msg_id = ''note1'', msg_number = None, msg_protocol = ''ALL'',
                msg_category = ''Manual'', msg_text = ''Hello {name}, a note from the team.'',
                msg_active = True\<rparr>"

definition catalogue :: "template list" where
  "catalogue = [dailyFour, checkIn, checkInB, openQuestion, teamNote]"

definition store0 :: store where
  "store0 = \<lparr>users = [''+13125550100'' \<mapsto> ann, ''+12135550111'' \<mapsto> bob],
             messages = catalogue, message_history = [],
             daily_limits = Map.empty, outbox = []\<rparr>"

definition accepted :: "environment \<Rightarrow> string \<Rightarrow> string \<Rightarrow> bool" where
  \<comment> \<open>\<^verbatim>\<open>sendMessage\<close> answers \<^verbatim>\<open>{success: true}\<close>: development mode, or Twilio takes
      the message\<close>
  "accepted env phoneNumber messageText =
     (development env \<or> twilio env (sendMessage_normalizedPhone phoneNumber) messageText = None)"


definition pendingFor :: "user \<Rightarrow> string \<Rightarrow> pending_message" where
  \<comment> \<open>the joined row of a pending injection of template \<open>mid\<close> for user \<open>u\<close>\<close>
  "pendingFor u mid = \<lparr>pm_id = 1, pm_phone_number = phone_number u, pm_message_id = mid,
                        pm_first_name = first_name u, pm_timezone = timezone u\<rparr>"

definition counterValue :: "(string \<times> date \<rightharpoonup> int) \<Rightarrow> string \<times> date \<Rightarrow> int" where
  \<comment> \<open>the Daily Counter of a recipient and a date: 0 when there is no row\<close>
  "counterValue d k = (case d k of None \<Rightarrow> 0 | Some n \<Rightarrow> n)"

definition storeCap :: store where
  \<comment> \<open>Bob has had four messages on Monday 15 January 2024, Los Angeles date
      (day number 19737)\<close>
  "storeCap = store0\<lparr>daily_limits := [(''+12135550111'', 19737) \<mapsto> 4]\<rparr>"

definition isSystemCommand :: "string \<Rightarrow> bool" where
  \<comment> \<open>the cases of the switch in \<^verbatim>\<open>handleSystemCommands\<close>\<close>
  "isSystemCommand m = (m \<in> set [''STOP'', ''START'', ''RESET''])"

definition isCrisisKeyword :: "string \<Rightarrow> bool" where
  \<comment> \<open>the vocabulary the specification lists for step 2\<close>
  "isCrisisKeyword m =
     (m \<in> set [''HELP'', ''ANXIETY'', ''STRESS'', ''PANIC'', ''CRISIS'', ''CALM'', ''BREATHE'',
                ''POSITIVE'', ''AFFIRM''])"

definition cleanMessage :: "string \<Rightarrow> string" where
  \<comment> \<open>\<^verbatim>\<open>messageBody.trim().toUpperCase()\<close>\<close>
  "cleanMessage b = toUpperCase (trim b)"

definition withinWindow :: "environment \<Rightarrow> instant \<Rightarrow> user \<Rightarrow> bool" where
  \<comment> \<open>the negation of \<^verbatim>\<open>now > responseWindow\<close>\<close>
  "withinWindow env now u = (\<not> now > setHoursPlus24 env (awaitingSince u))"

definition steadyClock :: "environment \<Rightarrow> instant \<Rightarrow> bool" where
  \<comment> \<open>the server's zone has one offset from \<open>t\<close> to the same wall-clock time of the
      next day\<close>
  "steadyClock env t =
     (serverOffsetLocal env (t + serverOffset env t * 60000 + 24 * 3600000) = serverOffset env t)"


definition delivered :: "int \<Rightarrow> string \<Rightarrow> string \<Rightarrow> instant \<Rightarrow> history_row" where
  \<comment> \<open>the row that \<^verbatim>\<open>sendMessage\<close> inserts in production\<close>
  "delivered n phoneNumber messageId t =
     \<lparr>h_rowid = n, h_phone_number = phoneNumber, h_message_id = messageId,
      h_sent_timestamp = t, h_delivery_status = ''sent'',
      h_user_responded = False, h_response_timestamp = None\<rparr>"

definition deliveryLog :: "history_row list" where
  "deliveryLog =
     [delivered 1 ''+13125550100'' ''q2'' (jan2024 2 16 0),
      delivered 2 ''+12135550111'' ''q2'' (jan2024 3 16 0),
      delivered 3 ''+13125550100'' ''q2'' (jan2024 8 16 0)]"

definition awaiting :: "string \<Rightarrow> instant \<Rightarrow> store" where
  \<comment> \<open>Ann was sent the interactive template \<open>mid\<close> at \<open>since\<close> and has not answered\<close>
  "awaiting mid since =
     store0\<lparr>users := (users store0)(''+13125550100'' \<mapsto>
                ann\<lparr>awaiting_response := Some mid, awaiting_response_since := Some since\<rparr>),
            message_history := deliveryLog\<rparr>"

definition followUp :: "store \<Rightarrow> user \<Rightarrow> string \<Rightarrow> string \<Rightarrow> string \<times> string" where
  \<comment> \<open>the text and the message id that \<^verbatim>\<open>handleInteractiveResponse\<close> sends after a
      valid answer\<close>
  "followUp s u mid response =
     (case getMessage s (mid @ toLowerCase response) of
        Some f \<Rightarrow> (personalizeMessage (msg_text f) (first_name u), mid @ toLowerCase response)
      | None \<Rightarrow> (''Thanks for your response! Your wellness journey continues.'',
                 ''generic_followup''))"


definition helpText :: "string option \<Rightarrow> string" where
  \<comment> \<open>the text of \<^verbatim>\<open>handleUnrecognizedMessage\<close>\<close>
  "helpText firstName =
     ''Hi '' @ nameOrEmpty firstName @ ''! Thanks for your message. '' @
     ''Reply HELP for support, or visit healthytext.com for more options. '' @
     ''Text STOP to unsubscribe.''"

definition specNormalize :: "string \<Rightarrow> string option" where
  \<comment> \<open>the phone normalization contract in the specification's words: strip
      non-digits; if the length is 10, prepend 1; accept only a result of length 11 that
      starts with 1\<close>
  "specNormalize phoneNumber =
     (let digits = filter isDigit phoneNumber;
          digits = (if length digits = 10 then CHR ''1'' # digits else digits)
      in if length digits = 11 \<and> startsWith digits ''1'' then Some (CHR ''+'' # digits) else None)"

section \<open>Arithmetic and evaluation lemmas\<close>

lemma js_rem_nonneg: "0 \<le> a \<Longrightarrow> js_rem a 60 = a mod 60"
  by (simp add: js_rem_def absFloor_def minus_mult_div_eq_mod)

lemma phase1_ids:
  "checkPostTrialSchedule u 8 = Due ''post-trial-phase1'' None (Some ''ptmb1'')"
  "checkPostTrialSchedule u 10 = Due ''post-trial-phase1'' None (Some ''ptmb2'')"
  "checkPostTrialSchedule u 13 = Due ''post-trial-phase1'' None (Some ''ptmb3'')"
  "checkPostTrialSchedule u 17 = Due ''post-trial-phase1'' None (Some ''ptmb4'')"
  by (simp_all add: checkPostTrialSchedule_def phase1Days_def numString_def digitChar_def)

lemma checkPostTrialSchedule_due:
  "isDue (checkPostTrialSchedule u d) \<longleftrightarrow>
     d \<in> {8, 10, 13, 17} \<or> d \<in> {25, 33, 41} \<or> d \<in> {71, 101, 131} \<or>
     (191 \<le> d \<and> (d - 191) mod 60 = 0)"
  by (auto simp: checkPostTrialSchedule_def phase1Days_def js_rem_nonneg Let_def)

lemma checkPostTrialSchedule_phases:
  "d \<in> {25, 33, 41} \<Longrightarrow> checkPostTrialSchedule u d = Due ''post-trial-phase2'' None None"
  "d \<in> {71, 101, 131} \<Longrightarrow> checkPostTrialSchedule u d = Due ''post-trial-phase3'' None None"
  "191 \<le> d \<Longrightarrow> (d - 191) mod 60 = 0 \<Longrightarrow>
     checkPostTrialSchedule u d = Due ''post-trial-phase4'' None None"
  by (auto simp: checkPostTrialSchedule_def phase1Days_def js_rem_nonneg Let_def)

lemmas clock_defs =
  jan2024_def usZones_def tz_hour_def tz_minute_def tz_day_def tz_date_def utc_date_def
  localMillis_def msPerDay_def diff_days_def absFloor_def zoneOrDefault_def defaultZone_def

section \<open>Eligibility of trial recipients after the trial\<close>

text \<open>
  Claim C1. For a recipient of type trial with at least 7 trial messages sent,
  \<open>isUserDueForMessage\<close> answers due exactly when the number of whole days since the
  join date, taken in the recipient's zone, is 8, 10, 13 or 17 (phase 1, with the message
  ids ptmb1 to ptmb4 in that order), 25, 33 or 41 (phase 2), 71, 101 or 131 (phase 3), or
  at least 191 with the excess over 191 a multiple of 60 (phase 4). Days 190 and 192 are
  not due; days 191, 251 and 311 are.
\<close>

theorem post_trial_schedule_exact:
  assumes "user_type u = ''trial''" and "7 \<le> trial_messages_sent u"
  shows "(let d = daysSinceJoined z now u; r = isUserDueForMessage z now u
          in (isDue r \<longleftrightarrow>
                d \<in> {8, 10, 13, 17} \<or> d \<in> {25, 33, 41} \<or> d \<in> {71, 101, 131} \<or>
                (191 \<le> d \<and> (d - 191) mod 60 = 0)) \<and>
             (d = 8 \<longrightarrow> r = Due ''post-trial-phase1'' None (Some ''ptmb1'')) \<and>
             (d = 10 \<longrightarrow> r = Due ''post-trial-phase1'' None (Some ''ptmb2'')) \<and>
             (d = 13 \<longrightarrow> r = Due ''post-trial-phase1'' None (Some ''ptmb3'')) \<and>
             (d = 17 \<longrightarrow> r = Due ''post-trial-phase1'' None (Some ''ptmb4'')) \<and>
             (d \<in> {25, 33, 41} \<longrightarrow> r = Due ''post-trial-phase2'' None None) \<and>
             (d \<in> {71, 101, 131} \<longrightarrow> r = Due ''post-trial-phase3'' None None) \<and>
             (191 \<le> d \<and> (d - 191) mod 60 = 0 \<longrightarrow> r = Due ''post-trial-phase4'' None None) \<and>
             (d \<in> {190, 192} \<longrightarrow> \<not> isDue r) \<and>
             (d \<in> {191, 251, 311} \<longrightarrow> isDue r))"
proof -
  have r: "isUserDueForMessage z now u = checkPostTrialSchedule u (daysSinceJoined z now u)"
    using assms by (simp add: isUserDueForMessage_def)
  show ?thesis
    unfolding Let_def r
    by (intro conjI impI checkPostTrialSchedule_due)
       (auto simp: phase1_ids checkPostTrialSchedule_phases checkPostTrialSchedule_due)
qed

theorem post_trial_schedule_exact_witness:
  "user_type ann = ''trial'' \<and> 7 \<le> trial_messages_sent ann \<and>
   daysSinceJoined usZones (jan2024 9 16 0) ann = 8 \<and>
   isUserDueForMessage usZones (jan2024 9 16 0) ann =
     Due ''post-trial-phase1'' None (Some ''ptmb1'') \<and>
   daysSinceJoined usZones (jan2024 10 16 0) ann = 9 \<and>
   \<not> isDue (isUserDueForMessage usZones (jan2024 10 16 0) ann) \<and>
   daysSinceJoined usZones (jan2024 191 16 0) ann = 190 \<and>
   \<not> isDue (isUserDueForMessage usZones (jan2024 191 16 0) ann) \<and>
   daysSinceJoined usZones (jan2024 192 16 0) ann = 191 \<and>
   isDue (isUserDueForMessage usZones (jan2024 192 16 0) ann)"
proof -
  have u: "user_type ann = ''trial''" "7 \<le> trial_messages_sent ann"
    by (simp_all add: ann_def)
  have d: "daysSinceJoined usZones (jan2024 9 16 0) ann = 8"
          "daysSinceJoined usZones (jan2024 10 16 0) ann = 9"
          "daysSinceJoined usZones (jan2024 191 16 0) ann = 190"
          "daysSinceJoined usZones (jan2024 192 16 0) ann = 191"
    by (simp_all add: daysSinceJoined_def ann_def clock_defs)
  show ?thesis
    using u d
      post_trial_schedule_exact [OF u, of usZones "jan2024 9 16 0"]
      post_trial_schedule_exact [OF u, of usZones "jan2024 10 16 0"]
      post_trial_schedule_exact [OF u, of usZones "jan2024 191 16 0"]
      post_trial_schedule_exact [OF u, of usZones "jan2024 192 16 0"]
    by (simp add: Let_def)
qed

section \<open>What the send function writes\<close>



lemma sendMessage_result:
  "snd (sendMessage env now s p t i) =
     (if development env then None else twilio env (sendMessage_normalizedPhone p) t)"
  by (simp add: sendMessage_def Let_def split: option.splits)

lemma sendMessage_outbox:
  "outbox (fst (sendMessage env now s p t i)) = outbox s @ [(sendMessage_normalizedPhone p, t, i)]"
  by (simp add: sendMessage_def Let_def insertHistory_def split: option.splits)

lemma sendMessage_frame:
  "daily_limits (fst (sendMessage env now s p t i)) = daily_limits s"
  "messages (fst (sendMessage env now s p t i)) = messages s"
  by (simp_all add: sendMessage_def Let_def insertHistory_def split: option.splits)

lemma getMessage_sendMessage:
  "getMessage (fst (sendMessage env now s p t i)) = getMessage s"
  by (simp add: getMessage_def fun_eq_iff sendMessage_frame)

lemma sendMessage_users_plain:
  "\<not> includesStr t ''A)'' \<Longrightarrow> \<not> includesStr t ''Reply:'' \<Longrightarrow>
   users (fst (sendMessage env now s p t i)) = users s"
  by (simp add: sendMessage_def Let_def insertHistory_def split: option.splits)

lemma sendMessage_users_failed:
  "snd (sendMessage env now s p t i) \<noteq> None \<Longrightarrow> users (fst (sendMessage env now s p t i)) = users s"
  by (simp add: sendMessage_def Let_def insertHistory_def split: option.splits if_splits)


lemma updateUser_apply:
  "updateUser f p us q = (if q = p then map_option f (us p) else us q)"
  by (simp add: updateUser_def split: option.splits)






lemma sendMessage_plain:
  "\<not> includesStr t ''A)'' \<Longrightarrow> \<not> includesStr t ''Reply:'' \<Longrightarrow> i \<noteq> [] \<Longrightarrow>
   sendMessage delivers now s p t i =
     (s\<lparr>outbox := outbox s @ [(sendMessage_normalizedPhone p, t, i)],
        message_history := message_history s @
          [delivered (case maxRowid (message_history s) of None \<Rightarrow> 1 | Some m \<Rightarrow> m + 1)
             (sendMessage_normalizedPhone p) i now]\<rparr>, None)"
  by (simp add: sendMessage_def Let_def insertHistory_def delivered_def delivers_def)

lemma normalized_twice:
  "sendMessage_normalizedPhone (normalizePhoneNumber p) = normalizePhoneNumber p"
proof -
  let ?d = "filter isDigit p"
  have c: "\<not> isDigit CHR ''+''" "isDigit CHR ''1''"
    by (simp_all add: isDigit_def)
  show ?thesis
  proof (cases "\<not> startsWith ?d ''1'' \<and> length ?d = 10")
    case True
    then have n: "normalizePhoneNumber p = CHR ''+'' # CHR ''1'' # ?d"
      by (simp add: normalizePhoneNumber_def Let_def)
    show ?thesis
      unfolding n by (simp add: sendMessage_normalizedPhone_def Let_def startsWith_def c)
  next
    case False
    then have n: "normalizePhoneNumber p = CHR ''+'' # ?d"
      by (auto simp: normalizePhoneNumber_def Let_def)
    show ?thesis
      unfolding n using False by (auto simp: sendMessage_normalizedPhone_def Let_def c)
  qed
qed

lemma sample_phones:
  "sendMessage_normalizedPhone ''+13125550100'' = ''+13125550100''"
  "sendMessage_normalizedPhone ''+12135550111'' = ''+12135550111''"
  "sendMessage_normalizedPhone ''+17735550122'' = ''+17735550122''"
  "sendMessage_normalizedPhone ''+23122858457'' = ''+23122858457''"
  by (simp_all add: sendMessage_normalizedPhone_def isDigit_def startsWith_def)

section \<open>Paths through the scheduler and the injector\<close>

lemma inSendingHours_iff: "inSendingHours h \<longleftrightarrow> 9 \<le> h \<and> h < 18"
  by (auto simp: inSendingHours_def)

lemma accepted_iff: "snd (sendMessage env now s p t i) = None \<longleftrightarrow> accepted env p t"
  by (simp add: sendMessage_result accepted_def)

lemma accepted_result: "accepted env p t \<Longrightarrow> snd (sendMessage env now s p t i) = None"
  by (simp add: accepted_iff)

lemma checkUser_sunday:
  "tz_day z (zoneOrDefault (timezone u)) now = 0 \<Longrightarrow>
   checkUserForMessage z env rnd now s u =
     Inr (s, NotSent (''Sunday rest day in '' @ showZone (timezone u)))"
  by (simp add: checkUserForMessage_def Let_def)

lemma checkUser_outside:
  "tz_day z (zoneOrDefault (timezone u)) now \<noteq> 0 \<Longrightarrow>
   \<not> inSendingHours (tz_hour z (zoneOrDefault (timezone u)) now) \<Longrightarrow>
   checkUserForMessage z env rnd now s u =
     Inr (s, NotSent (''Outside sending hours in '' @ showZone (timezone u) @ '' ('' @
            formatTime (tz_hour z (zoneOrDefault (timezone u)) now)
                       (tz_minute z (zoneOrDefault (timezone u)) now) @ '')''))"
  by (simp add: checkUserForMessage_def Let_def inSendingHours_def)

lemma checkUser_sent_only:
  "checkUserForMessage z env rnd now s u = Inr (s', Sent) \<Longrightarrow>
   inSendingHours (tz_hour z (zoneOrDefault (timezone u)) now) \<and>
   tz_day z (zoneOrDefault (timezone u)) now \<noteq> 0"
  by (auto simp: checkUserForMessage_def Let_def inSendingHours_def case_prod_beta
           split: if_splits due.splits sum.splits option.splits)

lemma checkUser_no_error_outside:
  "tz_day z (zoneOrDefault (timezone u)) now = 0 \<or>
   \<not> inSendingHours (tz_hour z (zoneOrDefault (timezone u)) now) \<Longrightarrow>
   \<exists>r. checkUserForMessage z env rnd now s u = Inr (s, NotSent r)"
  using checkUser_sunday [of z u now env rnd s] checkUser_outside [of z u now env rnd s]
  by (cases "tz_day z (zoneOrDefault (timezone u)) now = 0") auto

lemma window_some:
  "n \<noteq> [] \<Longrightarrow> isInSendingWindow z now (Some n) =
     (if inSendingHours (tz_hour z n now) then Inr None
      else Inr (Some ''Outside sending hours (9 AM - 6 PM)''))"
  by (simp add: isInSendingWindow_def Let_def inSendingHours_def)



lemma injection_sent_only:
  "processSingleInjection z env now s pm = Inr (s', Sent) \<Longrightarrow>
   \<exists>n. pm_timezone pm = Some n \<and> n \<noteq> [] \<and> inSendingHours (tz_hour z n now)"
  by (auto simp: processSingleInjection_def isInSendingWindow_def Let_def inSendingHours_def
                 case_prod_beta
           split: if_splits sum.splits option.splits)

lemma injection_outside:
  "pm_timezone pm = Some n \<Longrightarrow> n \<noteq> [] \<Longrightarrow> \<not> inSendingHours (tz_hour z n now) \<Longrightarrow>
   \<exists>r. processSingleInjection z env now s pm = Inr (s, NotSent r)"
  by (simp add: processSingleInjection_def window_some)

lemma injection_sends:
  "pm_timezone pm = Some n \<Longrightarrow> n \<noteq> [] \<Longrightarrow> inSendingHours (tz_hour z n now) \<Longrightarrow>
   checkDailyLimit_injector now s (pm_phone_number pm) < 4 \<Longrightarrow>
   getMessage s (pm_message_id pm) = Some m \<Longrightarrow>
   accepted env (pm_phone_number pm) (personalizeMessage (msg_text m) (pm_first_name pm)) \<Longrightarrow>
   processSingleInjection z env now s pm =
     Inr (updateUserAfterInjection now
            (fst (sendMessage env now s (pm_phone_number pm)
                    (personalizeMessage (msg_text m) (pm_first_name pm)) (pm_message_id pm)))
            (pm_phone_number pm), Sent)"
  by (simp add: processSingleInjection_def window_some Let_def case_prod_beta accepted_result)

lemmas sample_defs = store0_def ann_def bob_def catalogue_def pendingFor_def delivers_def

lemmas template_defs = catalogue_def dailyFour_def checkIn_def checkInB_def openQuestion_def teamNote_def

lemma delivers_accepts: "accepted delivers p t"
  by (simp add: accepted_def delivers_def)

lemma zoneOrDefault_Some: "n \<noteq> [] \<Longrightarrow> zoneOrDefault (Some n) = n"
  by (simp add: zoneOrDefault_def)

lemma ann_zone: "zoneOrDefault (timezone ann) = ''America/Chicago''" "timezone ann = Some ''America/Chicago''"
  by (simp_all add: ann_def zoneOrDefault_def)

lemma pending_ann:
  "pm_timezone (pendingFor ann mid) = Some ''America/Chicago''"
  "pm_phone_number (pendingFor ann mid) = ''+13125550100''"
  "pm_message_id (pendingFor ann mid) = mid"
  "pm_first_name (pendingFor ann mid) = Some ''Ann''"
  by (simp_all add: pendingFor_def ann_def)

lemma store0_note1: "getMessage store0 ''note1'' = Some teamNote"
  by (simp add: getMessage_def store0_def template_defs)

lemma store0_no_counts: "checkDailyLimit_injector t store0 p = 0"
  by (simp add: checkDailyLimit_injector_def store0_def)

lemma checkUser_daily_limit:
  "tz_day z (zoneOrDefault (timezone u)) now \<noteq> 0 \<Longrightarrow>
   inSendingHours (tz_hour z (zoneOrDefault (timezone u)) now) \<Longrightarrow>
   4 \<le> messagesSentToday (checkDailyLimit z now s (phone_number u)) \<Longrightarrow>
   checkUserForMessage z env rnd now s u = Inr (s, NotSent ''Daily limit reached (4 messages)'')"
  by (simp add: checkUserForMessage_def Let_def inSendingHours_def)

lemma checkUser_sends:
  "tz_day z (zoneOrDefault (timezone u)) now \<noteq> 0 \<Longrightarrow>
   inSendingHours (tz_hour z (zoneOrDefault (timezone u)) now) \<Longrightarrow>
   messagesSentToday (checkDailyLimit z now s (phone_number u)) < 4 \<Longrightarrow>
   isUserDueForMessage z now u = Due t p i \<Longrightarrow>
   getNextMessage rnd s u t p = Inr (Some m) \<Longrightarrow>
   accepted env (phone_number u) (personalizeMessage (msg_text m) (first_name u)) \<Longrightarrow>
   checkUserForMessage z env rnd now s u =
     Inr (updateUserProgress z now
            (fst (sendMessage env now s (phone_number u)
                    (personalizeMessage (msg_text m) (first_name u)) (msg_id m))) u t, Sent)"
  by (simp add: checkUserForMessage_def Let_def inSendingHours_def case_prod_beta accepted_result)

lemma injection_daily_limit:
  "4 \<le> checkDailyLimit_injector now s (pm_phone_number pm) \<Longrightarrow>
   processSingleInjection z env now s pm = Inr (s, NotSent ''Daily limit reached (4 messages)'')"
  by (simp add: processSingleInjection_def)

lemma checkDailyLimit_count:
  "messagesSentToday (checkDailyLimit z now s p) =
     counterValue (daily_limits s)
       (p, tz_date z (zoneOrDefault (case users s p of None \<Rightarrow> None | Some r \<Rightarrow> timezone r)) now)"
  by (simp add: checkDailyLimit_def counterValue_def Let_def)

lemma checkDailyLimit_injector_count:
  "checkDailyLimit_injector now s p = counterValue (daily_limits s) (p, utc_date now)"
  by (simp add: checkDailyLimit_injector_def counterValue_def Let_def)

lemma counterValue_bumpDaily:
  "counterValue (bumpDaily d k) k' = (if k' = k then counterValue d k + 1 else counterValue d k')"
  by (simp add: counterValue_def bumpDaily_def)

lemma counter_updateUserProgress:
  "counterValue (daily_limits (updateUserProgress z now s u t)) k =
     (if k = (phone_number u, tz_date z (zoneOrDefault (timezone u)) now)
      then counterValue (daily_limits s) k + 1 else counterValue (daily_limits s) k)"
  by (simp add: updateUserProgress_def Let_def counterValue_bumpDaily)

lemma counter_updateUserAfterInjection:
  "counterValue (daily_limits (updateUserAfterInjection now s p)) k =
     (if k = (p, utc_date now)
      then counterValue (daily_limits s) k + 1 else counterValue (daily_limits s) k)"
  by (simp add: updateUserAfterInjection_def Let_def counterValue_bumpDaily)

lemma injection_sent_store:
  "processSingleInjection z env now s pm = Inr (s', Sent) \<Longrightarrow>
   \<exists>b. s' = updateUserAfterInjection now
              (fst (sendMessage env now s (pm_phone_number pm) b (pm_message_id pm)))
              (pm_phone_number pm)"
  by (auto simp: processSingleInjection_def Let_def case_prod_beta
           split: if_splits sum.splits option.splits)

lemma checkUser_sent_store:
  "checkUserForMessage z env rnd now s u = Inr (s', Sent) \<Longrightarrow>
   \<exists>t p i b mid. isUserDueForMessage z now u = Due t p i \<and>
     s' = updateUserProgress z now (fst (sendMessage env now s (phone_number u) b mid)) u t"
  by (auto simp: checkUserForMessage_def Let_def case_prod_beta
           split: if_splits due.splits sum.splits option.splits)

lemma injection_not_sent_store:
  "processSingleInjection z env now s pm = Inr (s', NotSent r) \<Longrightarrow>
   daily_limits s' = daily_limits s"
  by (auto simp: processSingleInjection_def Let_def case_prod_beta sendMessage_frame
           split: if_splits sum.splits option.splits)

lemma checkUser_not_sent_store:
  "checkUserForMessage z env rnd now s u = Inr (s', NotSent r) \<Longrightarrow>
   daily_limits s' = daily_limits s"
  by (auto simp: checkUserForMessage_def Let_def case_prod_beta sendMessage_frame
           split: if_splits due.splits sum.splits option.splits)

lemma counter_checkUser_mono:
  "checkUserForMessage z env rnd now s u = Inr (s', r) \<Longrightarrow>
   counterValue (daily_limits s) k \<le> counterValue (daily_limits s') k"
proof (cases r)
  case Sent
  assume "checkUserForMessage z env rnd now s u = Inr (s', r)"
  with Sent checkUser_sent_store [of z env rnd now s u s'] show ?thesis
    by (auto simp: counter_updateUserProgress sendMessage_frame)
next
  case (NotSent x)
  assume "checkUserForMessage z env rnd now s u = Inr (s', r)"
  with NotSent checkUser_not_sent_store [of z env rnd now s u s' x] show ?thesis
    by simp
qed

lemma counter_injection_mono:
  "processSingleInjection z env now s pm = Inr (s', r) \<Longrightarrow>
   counterValue (daily_limits s) k \<le> counterValue (daily_limits s') k"
proof (cases r)
  case Sent
  assume "processSingleInjection z env now s pm = Inr (s', r)"
  with Sent injection_sent_store [of z env now s pm s'] show ?thesis
    by (auto simp: counter_updateUserAfterInjection sendMessage_frame)
next
  case (NotSent x)
  assume "processSingleInjection z env now s pm = Inr (s', r)"
  with NotSent injection_not_sent_store [of z env now s pm s' x] show ?thesis
    by simp
qed

lemma bob_zone: "zoneOrDefault (timezone bob) = ''America/Los_Angeles''"
    "timezone bob = Some ''America/Los_Angeles''" "phone_number bob = ''+12135550111''"
    "first_name bob = Some ''Bob''"
  by (simp_all add: bob_def zoneOrDefault_def)

lemma pending_bob:
  "pm_timezone (pendingFor bob mid) = Some ''America/Los_Angeles''"
  "pm_phone_number (pendingFor bob mid) = ''+12135550111''"
  "pm_message_id (pendingFor bob mid) = mid"
  "pm_first_name (pendingFor bob mid) = Some ''Bob''"
  by (simp_all add: pendingFor_def bob_def)

lemma storeCap_fields:
  "users storeCap = users store0" "messages storeCap = catalogue" "outbox storeCap = []"
  "message_history storeCap = []"
  "daily_limits storeCap = [(''+12135550111'', 19737) \<mapsto> 4]"
  "getMessage storeCap = getMessage store0"
  by (simp_all add: storeCap_def store0_def getMessage_def fun_eq_iff)

lemma late_monday:
  "tz_date usZones ''America/Los_Angeles'' (jan2024 16 1 0) = 19737"
  "utc_date (jan2024 16 1 0) = 19738"
  "tz_hour usZones ''America/Los_Angeles'' (jan2024 16 1 0) = 17"
  "tz_day usZones ''America/Los_Angeles'' (jan2024 16 1 0) = 1"
  by (simp_all add: clock_defs)

lemma note_for_bob:
  "personalizeMessage (msg_text (teamNote)) (Some ''Bob'') = ''Hello Bob, a note from the team.''"
  by (simp add: template_defs personalizeMessage_def startsWith_def)

lemma note_for_ann:
  "personalizeMessage (msg_text (teamNote)) (Some ''Ann'') = ''Hello Ann, a note from the team.''"
  by (simp add: template_defs personalizeMessage_def startsWith_def)

lemma plain_texts:
  "\<not> includesStr ''Hello Bob, a note from the team.'' ''A)''"
  "\<not> includesStr ''Hello Bob, a note from the team.'' ''Reply:''"
  "\<not> includesStr ''Hello Ann, a note from the team.'' ''A)''"
  "\<not> includesStr ''Hello Ann, a note from the team.'' ''Reply:''"
  by (simp_all add: startsWith_def)



lemma store0_users:
  "users store0 ''+13125550100'' = Some ann" "users store0 ''+12135550111'' = Some bob"
  "daily_limits store0 = Map.empty" "messages store0 = catalogue" "outbox store0 = []"
  "message_history store0 = []"
  by (simp_all add: store0_def)

lemma ann_fields:
  "phone_number ann = ''+13125550100''" "first_name ann = Some ''Ann''"
  "trial_messages_sent ann = 7" "current_sequence_position ann = 1" "total_messages_sent ann = 7"
  "awaiting_response ann = None" "awaiting_response_since ann = None"
  by (simp_all add: ann_def)

lemma bob_due_monday:
  "isUserDueForMessage usZones (jan2024 8 20 0) bob = Due ''sequence'' (Some 4) None"
  "isUserDueForMessage usZones (jan2024 8 17 0) bob = Due ''sequence'' (Some 4) None"
  "isUserDueForMessage usZones (jan2024 9 1 59) bob = Due ''sequence'' (Some 4) None"
  by (simp_all add: isUserDueForMessage_def daysSinceLastMessage_def bob_def clock_defs)

lemma bob_next_message:
  "getNextMessage rnd store0 bob ''sequence'' (Some 4) = Inr (Some (dailyFour))"
  by (simp add: getNextMessage_def store0_def bob_def template_defs)


lemma sunday_noon_chicago:
  "tz_day usZones ''America/Chicago'' (jan2024 7 18 0) = 0"
  "tz_hour usZones ''America/Chicago'' (jan2024 7 18 0) = 12"
  by (simp_all add: clock_defs)

section \<open>The sending window\<close>

text \<open>
  A scheduled send (\<open>checkUserForMessage\<close>) happens only when the recipient's local hour
  is in [9,18) and the local weekday is not Sunday; on a Sunday or outside those hours the
  result is a reason and the store is unchanged; on another day inside those hours the
  message is sent when the counter, the schedule, the catalogue and the transport allow.
  A manual injection (\<open>processSingleInjection\<close>) that is sent was inside the same hours;
  for a recipient that has a zone name it gives a reason outside them, with the store
  unchanged, and inside them it is sent on every weekday, Sunday included, when the
  counter, the template and the transport allow. At local 8:59 and 18:00 the window is
  closed, at 9:00 and 17:59 it is open.
\<close>

lemma sending_window_policy:
  "(checkUserForMessage z env rnd now s u = Inr (s', Sent) \<longrightarrow>
      inSendingHours (tz_hour z (zoneOrDefault (timezone u)) now) \<and>
      tz_day z (zoneOrDefault (timezone u)) now \<noteq> 0) \<and>
   (tz_day z (zoneOrDefault (timezone u)) now = 0 \<or>
    \<not> inSendingHours (tz_hour z (zoneOrDefault (timezone u)) now) \<longrightarrow>
      (\<exists>r. checkUserForMessage z env rnd now s u = Inr (s, NotSent r))) \<and>
   (tz_day z (zoneOrDefault (timezone u)) now \<noteq> 0 \<and>
    inSendingHours (tz_hour z (zoneOrDefault (timezone u)) now) \<and>
    messagesSentToday (checkDailyLimit z now s (phone_number u)) < 4 \<and>
    isUserDueForMessage z now u = Due t p i \<and>
    getNextMessage rnd s u t p = Inr (Some m') \<and>
    accepted env (phone_number u) (personalizeMessage (msg_text m') (first_name u)) \<longrightarrow>
      (\<exists>s''. checkUserForMessage z env rnd now s u = Inr (s'', Sent))) \<and>
   (processSingleInjection z env now s pm = Inr (s', Sent) \<longrightarrow>
      (\<exists>n. pm_timezone pm = Some n \<and> inSendingHours (tz_hour z n now))) \<and>
   (pm_timezone pm = Some n \<and> n \<noteq> [] \<and> \<not> inSendingHours (tz_hour z n now) \<longrightarrow>
      (\<exists>r. processSingleInjection z env now s pm = Inr (s, NotSent r))) \<and>
   (pm_timezone pm = Some n \<and> n \<noteq> [] \<and> inSendingHours (tz_hour z n now) \<and>
    checkDailyLimit_injector now s (pm_phone_number pm) < 4 \<and>
    getMessage s (pm_message_id pm) = Some m \<and>
    accepted env (pm_phone_number pm) (personalizeMessage (msg_text m) (pm_first_name pm)) \<longrightarrow>
      (\<exists>s''. processSingleInjection z env now s pm = Inr (s'', Sent))) \<and>
   (inSendingHours h \<longleftrightarrow> 9 \<le> h \<and> h < 18) \<and>
   (n \<noteq> [] \<and> tz_hour z n now = 8 \<and> tz_minute z n now = 59 \<longrightarrow>
      isInSendingWindow z now (Some n) = Inr (Some ''Outside sending hours (9 AM - 6 PM)'')) \<and>
   (n \<noteq> [] \<and> tz_hour z n now = 18 \<and> tz_minute z n now = 0 \<longrightarrow>
      isInSendingWindow z now (Some n) = Inr (Some ''Outside sending hours (9 AM - 6 PM)'')) \<and>
   (n \<noteq> [] \<and> tz_hour z n now = 9 \<and> tz_minute z n now = 0 \<longrightarrow>
      isInSendingWindow z now (Some n) = Inr None) \<and>
   (n \<noteq> [] \<and> tz_hour z n now = 17 \<and> tz_minute z n now = 59 \<longrightarrow>
      isInSendingWindow z now (Some n) = Inr None)"
proof (intro conjI impI)
  assume "checkUserForMessage z env rnd now s u = Inr (s', Sent)"
  from checkUser_sent_only [OF this]
  show "inSendingHours (tz_hour z (zoneOrDefault (timezone u)) now)"
    and "tz_day z (zoneOrDefault (timezone u)) now \<noteq> 0" by simp_all
next
  assume "tz_day z (zoneOrDefault (timezone u)) now = 0 \<or>
          \<not> inSendingHours (tz_hour z (zoneOrDefault (timezone u)) now)"
  then show "\<exists>r. checkUserForMessage z env rnd now s u = Inr (s, NotSent r)"
    by (rule checkUser_no_error_outside)
next
  assume "tz_day z (zoneOrDefault (timezone u)) now \<noteq> 0 \<and>
    inSendingHours (tz_hour z (zoneOrDefault (timezone u)) now) \<and>
    messagesSentToday (checkDailyLimit z now s (phone_number u)) < 4 \<and>
    isUserDueForMessage z now u = Due t p i \<and>
    getNextMessage rnd s u t p = Inr (Some m') \<and>
    accepted env (phone_number u) (personalizeMessage (msg_text m') (first_name u))"
  then show "\<exists>s''. checkUserForMessage z env rnd now s u = Inr (s'', Sent)"
    using checkUser_sends [of z u now s t p i rnd m' env] by blast
next
  assume "processSingleInjection z env now s pm = Inr (s', Sent)"
  from injection_sent_only [OF this]
  show "\<exists>n. pm_timezone pm = Some n \<and> inSendingHours (tz_hour z n now)" by blast
next
  assume "pm_timezone pm = Some n \<and> n \<noteq> [] \<and> \<not> inSendingHours (tz_hour z n now)"
  then show "\<exists>r. processSingleInjection z env now s pm = Inr (s, NotSent r)"
    using injection_outside by blast
next
  assume "pm_timezone pm = Some n \<and> n \<noteq> [] \<and> inSendingHours (tz_hour z n now) \<and>
    checkDailyLimit_injector now s (pm_phone_number pm) < 4 \<and>
    getMessage s (pm_message_id pm) = Some m \<and>
    accepted env (pm_phone_number pm) (personalizeMessage (msg_text m) (pm_first_name pm))"
  then show "\<exists>s''. processSingleInjection z env now s pm = Inr (s'', Sent)"
    using injection_sends [of pm n z now s m env] by blast
qed (simp_all add: inSendingHours_iff window_some)

text \<open>
  The boundaries on Monday 8 January 2024 for Bob in Los Angeles: at 8:59 and at 18:00
  neither the scheduler nor the injector sends and both give a reason; at 9:00 and at
  17:59 both send. On Sunday 7 January at noon in Chicago the scheduler gives a reason
  for Ann and the injector sends to her.
\<close>

lemma sending_window_boundaries:
  "tz_hour usZones ''America/Los_Angeles'' (jan2024 8 16 59) = 8 \<and>
   tz_minute usZones ''America/Los_Angeles'' (jan2024 8 16 59) = 59 \<and>
   checkUserForMessage usZones delivers 0 (jan2024 8 16 59) store0 bob =
     Inr (store0, NotSent ''Outside sending hours in America/Los_Angeles (8:59 AM)'') \<and>
   processSingleInjection usZones delivers (jan2024 8 16 59) store0 (pendingFor bob ''note1'') =
     Inr (store0, NotSent ''Outside sending hours (9 AM - 6 PM)'') \<and>
   tz_hour usZones ''America/Los_Angeles'' (jan2024 8 17 0) = 9 \<and>
   tz_minute usZones ''America/Los_Angeles'' (jan2024 8 17 0) = 0 \<and>
   (\<exists>s'. checkUserForMessage usZones delivers 0 (jan2024 8 17 0) store0 bob = Inr (s', Sent)) \<and>
   (\<exists>s'. processSingleInjection usZones delivers (jan2024 8 17 0) store0 (pendingFor bob ''note1'') =
           Inr (s', Sent)) \<and>
   tz_hour usZones ''America/Los_Angeles'' (jan2024 9 1 59) = 17 \<and>
   tz_minute usZones ''America/Los_Angeles'' (jan2024 9 1 59) = 59 \<and>
   (\<exists>s'. checkUserForMessage usZones delivers 0 (jan2024 9 1 59) store0 bob = Inr (s', Sent)) \<and>
   (\<exists>s'. processSingleInjection usZones delivers (jan2024 9 1 59) store0 (pendingFor bob ''note1'') =
           Inr (s', Sent)) \<and>
   tz_hour usZones ''America/Los_Angeles'' (jan2024 9 2 0) = 18 \<and>
   tz_minute usZones ''America/Los_Angeles'' (jan2024 9 2 0) = 0 \<and>
   checkUserForMessage usZones delivers 0 (jan2024 9 2 0) store0 bob =
     Inr (store0, NotSent ''Outside sending hours in America/Los_Angeles (6:00 PM)'') \<and>
   processSingleInjection usZones delivers (jan2024 9 2 0) store0 (pendingFor bob ''note1'') =
     Inr (store0, NotSent ''Outside sending hours (9 AM - 6 PM)'') \<and>
   tz_day usZones ''America/Chicago'' (jan2024 7 18 0) = 0 \<and>
   tz_hour usZones ''America/Chicago'' (jan2024 7 18 0) = 12 \<and>
   checkUserForMessage usZones delivers 0 (jan2024 7 18 0) store0 ann =
     Inr (store0, NotSent ''Sunday rest day in America/Chicago'') \<and>
   (\<exists>s'. processSingleInjection usZones delivers (jan2024 7 18 0) store0 (pendingFor ann ''note1'') =
           Inr (s', Sent))"
proof -
  let ?early = "jan2024 8 16 59" and ?nine = "jan2024 8 17 0"
  let ?last = "jan2024 9 1 59" and ?six = "jan2024 9 2 0" and ?sun = "jan2024 7 18 0"
  let ?pm = "pendingFor bob ''note1''"
  have early: "tz_hour usZones ''America/Los_Angeles'' ?early = 8"
              "tz_minute usZones ''America/Los_Angeles'' ?early = 59"
              "tz_day usZones ''America/Los_Angeles'' ?early = 1"
    by (simp_all add: clock_defs)
  have nine: "tz_hour usZones ''America/Los_Angeles'' ?nine = 9"
             "tz_minute usZones ''America/Los_Angeles'' ?nine = 0"
             "tz_day usZones ''America/Los_Angeles'' ?nine = 1"
    by (simp_all add: clock_defs)
  have last: "tz_hour usZones ''America/Los_Angeles'' ?last = 17"
             "tz_minute usZones ''America/Los_Angeles'' ?last = 59"
             "tz_day usZones ''America/Los_Angeles'' ?last = 1"
    by (simp_all add: clock_defs)
  have six: "tz_hour usZones ''America/Los_Angeles'' ?six = 18"
            "tz_minute usZones ''America/Los_Angeles'' ?six = 0"
            "tz_day usZones ''America/Los_Angeles'' ?six = 1"
    by (simp_all add: clock_defs)
  have fmt: "formatTime 8 59 = ''8:59 AM''" "formatTime 18 0 = ''6:00 PM''"
    by (simp_all add: formatTime_def twoDigits_def numString_def digitChar_def)
  have a: "checkUserForMessage usZones delivers 0 ?early store0 bob =
             Inr (store0, NotSent ''Outside sending hours in America/Los_Angeles (8:59 AM)'')"
    using checkUser_outside [where z = usZones and u = bob and now = ?early and env = delivers
        and rnd = 0 and s = store0]
    by (simp add: bob_zone zoneOrDefault_Some early inSendingHours_def showZone_def fmt)
  have b: "processSingleInjection usZones delivers ?early store0 ?pm =
             Inr (store0, NotSent ''Outside sending hours (9 AM - 6 PM)'')"
    by (simp add: processSingleInjection_def store0_no_counts pending_bob window_some early
                  inSendingHours_def)
  have c: "\<exists>s'. checkUserForMessage usZones delivers 0 ?nine store0 bob = Inr (s', Sent)"
    using checkUser_sends [where u = bob and z = usZones and now = ?nine and s = store0
        and t = "''sequence''" and p = "Some 4" and i = None and rnd = 0 and m = "dailyFour"
        and env = delivers]
    by (simp add: bob_zone zoneOrDefault_Some nine inSendingHours_def checkDailyLimit_count
                  store0_users counterValue_def bob_due_monday bob_next_message delivers_accepts)
  have d: "\<exists>s'. processSingleInjection usZones delivers ?nine store0 ?pm = Inr (s', Sent)"
    using injection_sends [where pm = ?pm and n = "''America/Los_Angeles''" and z = usZones
        and now = ?nine and s = store0 and m = teamNote and env = delivers]
    by (simp add: pending_bob nine inSendingHours_def store0_no_counts store0_note1 delivers_accepts)
  have e: "\<exists>s'. checkUserForMessage usZones delivers 0 ?last store0 bob = Inr (s', Sent)"
    using checkUser_sends [where u = bob and z = usZones and now = ?last and s = store0
        and t = "''sequence''" and p = "Some 4" and i = None and rnd = 0 and m = "dailyFour"
        and env = delivers]
    by (simp add: bob_zone zoneOrDefault_Some last inSendingHours_def checkDailyLimit_count
                  store0_users counterValue_def bob_due_monday bob_next_message delivers_accepts)
  have f: "\<exists>s'. processSingleInjection usZones delivers ?last store0 ?pm = Inr (s', Sent)"
    using injection_sends [where pm = ?pm and n = "''America/Los_Angeles''" and z = usZones
        and now = ?last and s = store0 and m = teamNote and env = delivers]
    by (simp add: pending_bob last inSendingHours_def store0_no_counts store0_note1 delivers_accepts)
  have g: "checkUserForMessage usZones delivers 0 ?six store0 bob =
             Inr (store0, NotSent ''Outside sending hours in America/Los_Angeles (6:00 PM)'')"
    using checkUser_outside [where z = usZones and u = bob and now = ?six and env = delivers
        and rnd = 0 and s = store0]
    by (simp add: bob_zone zoneOrDefault_Some six inSendingHours_def showZone_def fmt)
  have h: "processSingleInjection usZones delivers ?six store0 ?pm =
             Inr (store0, NotSent ''Outside sending hours (9 AM - 6 PM)'')"
    by (simp add: processSingleInjection_def store0_no_counts pending_bob window_some six
                  inSendingHours_def)
  have i: "checkUserForMessage usZones delivers 0 ?sun store0 ann =
             Inr (store0, NotSent ''Sunday rest day in America/Chicago'')"
    using checkUser_sunday [where z = usZones and u = ann and now = ?sun and env = delivers
        and rnd = 0 and s = store0]
    by (simp add: ann_zone zoneOrDefault_Some sunday_noon_chicago showZone_def)
  have j: "\<exists>s'. processSingleInjection usZones delivers ?sun store0 (pendingFor ann ''note1'') =
                  Inr (s', Sent)"
    using injection_sends [where pm = "pendingFor ann ''note1''" and n = "''America/Chicago''"
        and z = usZones and now = ?sun and s = store0 and m = teamNote and env = delivers]
    by (simp add: pending_ann sunday_noon_chicago inSendingHours_def store0_no_counts
                  store0_note1 delivers_accepts)
  show ?thesis
    using a b c d e f g h i j early nine last six sunday_noon_chicago by simp
qed








section \<open>The daily cap\<close>

text \<open>
  The scheduler refuses a recipient whose counter for the local date has reached 4 and
  sends below that; the injector does the same with the counter it reads.
\<close>

lemma scheduler_daily_cap:
  assumes "tz_day z (zoneOrDefault (timezone u)) now \<noteq> 0"
    and "inSendingHours (tz_hour z (zoneOrDefault (timezone u)) now)"
    and "users s (phone_number u) = Some u"
  shows "4 \<le> counterValue (daily_limits s)
                 (phone_number u, tz_date z (zoneOrDefault (timezone u)) now) \<Longrightarrow>
         checkUserForMessage z env rnd now s u =
           Inr (s, NotSent ''Daily limit reached (4 messages)'')"
    and "counterValue (daily_limits s)
           (phone_number u, tz_date z (zoneOrDefault (timezone u)) now) < 4 \<Longrightarrow>
         isUserDueForMessage z now u = Due t p i \<Longrightarrow>
         getNextMessage rnd s u t p = Inr (Some m) \<Longrightarrow>
         accepted env (phone_number u) (personalizeMessage (msg_text m) (first_name u)) \<Longrightarrow>
         \<exists>s'. checkUserForMessage z env rnd now s u = Inr (s', Sent) \<and>
              counterValue (daily_limits s')
                (phone_number u, tz_date z (zoneOrDefault (timezone u)) now) =
              counterValue (daily_limits s)
                (phone_number u, tz_date z (zoneOrDefault (timezone u)) now) + 1"
proof -
  have c: "messagesSentToday (checkDailyLimit z now s (phone_number u)) =
           counterValue (daily_limits s)
             (phone_number u, tz_date z (zoneOrDefault (timezone u)) now)"
    using assms(3) by (simp add: checkDailyLimit_count)
  show "4 \<le> counterValue (daily_limits s)
                 (phone_number u, tz_date z (zoneOrDefault (timezone u)) now) \<Longrightarrow>
         checkUserForMessage z env rnd now s u =
           Inr (s, NotSent ''Daily limit reached (4 messages)'')"
    using assms(1,2) c by (simp add: checkUser_daily_limit)
  show "counterValue (daily_limits s)
           (phone_number u, tz_date z (zoneOrDefault (timezone u)) now) < 4 \<Longrightarrow>
         isUserDueForMessage z now u = Due t p i \<Longrightarrow>
         getNextMessage rnd s u t p = Inr (Some m) \<Longrightarrow>
         accepted env (phone_number u) (personalizeMessage (msg_text m) (first_name u)) \<Longrightarrow>
         \<exists>s'. checkUserForMessage z env rnd now s u = Inr (s', Sent) \<and>
              counterValue (daily_limits s')
                (phone_number u, tz_date z (zoneOrDefault (timezone u)) now) =
              counterValue (daily_limits s)
                (phone_number u, tz_date z (zoneOrDefault (timezone u)) now) + 1"
    using assms(1,2) c
    by (simp add: checkUser_sends counter_updateUserProgress sendMessage_frame)
qed

lemma injector_daily_cap:
  "4 \<le> counterValue (daily_limits s) (pm_phone_number pm, utc_date now) \<Longrightarrow>
   processSingleInjection z env now s pm = Inr (s, NotSent ''Daily limit reached (4 messages)'')"
  by (simp add: injection_daily_limit checkDailyLimit_injector_count)

text \<open>
  Claim C3. A send attempt, scheduled or injected, is refused with a reason exactly when
  the recipient's counter for the local date has reached 4. The injector reads the
  counter of the UTC date instead. In Los Angeles on Monday 15 January 2024 at 17:00
  (01:00 UTC of the 16th), with four messages counted for the local date, the scheduler
  refuses Bob and the injector sends him a fifth message, which the send function records.
\<close>

theorem injection_fifth_send_same_local_day:
  "tz_date usZones ''America/Los_Angeles'' (jan2024 16 1 0) = 19737 \<and>
   counterValue (daily_limits storeCap) (''+12135550111'', 19737) = 4 \<and>
   checkUserForMessage usZones delivers 0 (jan2024 16 1 0) storeCap bob =
     Inr (storeCap, NotSent ''Daily limit reached (4 messages)'') \<and>
   processSingleInjection usZones delivers (jan2024 16 1 0) storeCap (pendingFor bob ''note1'') =
     Inr (updateUserAfterInjection (jan2024 16 1 0)
            (storeCap\<lparr>outbox := [(''+12135550111'', ''Hello Bob, a note from the team.'', ''note1'')],
                      message_history :=
                        [delivered 1 ''+12135550111'' ''note1'' (jan2024 16 1 0)]\<rparr>)
            ''+12135550111'', Sent)"
proof -
  let ?now = "jan2024 16 1 0"
  have cnt: "counterValue (daily_limits storeCap) (''+12135550111'', 19737) = 4"
    by (simp add: storeCap_fields counterValue_def)
  have sched: "messagesSentToday (checkDailyLimit usZones ?now storeCap ''+12135550111'') = 4"
    by (simp add: checkDailyLimit_count storeCap_fields store0_def bob_zone zoneOrDefault_Some late_monday counterValue_def)
  have inj: "checkDailyLimit_injector ?now storeCap ''+12135550111'' = 0"
    by (simp add: checkDailyLimit_injector_count pending_bob late_monday storeCap_fields counterValue_def)
  have a: "checkUserForMessage usZones delivers 0 ?now storeCap bob =
             Inr (storeCap, NotSent ''Daily limit reached (4 messages)'')"
    by (rule checkUser_daily_limit)
       (simp_all add: bob_zone zoneOrDefault_Some late_monday inSendingHours_def sched)
  have b: "processSingleInjection usZones delivers ?now storeCap (pendingFor bob ''note1'') =
     Inr (updateUserAfterInjection ?now
            (fst (sendMessage delivers ?now storeCap (pm_phone_number (pendingFor bob ''note1''))
                  (personalizeMessage (msg_text (teamNote)) (pm_first_name (pendingFor bob ''note1'')))
                  (pm_message_id (pendingFor bob ''note1''))))
            (pm_phone_number (pendingFor bob ''note1'')), Sent)"
    by (rule injection_sends [where n = "''America/Los_Angeles''"])
       (simp_all add: pending_bob late_monday inSendingHours_def inj storeCap_fields store0_note1
          delivers_accepts)
  have c: "sendMessage delivers ?now storeCap ''+12135550111'' ''Hello Bob, a note from the team.''
             ''note1'' =
           (storeCap\<lparr>outbox := [(''+12135550111'', ''Hello Bob, a note from the team.'', ''note1'')],
                     message_history := [delivered 1 ''+12135550111'' ''note1'' ?now]\<rparr>, None)"
    by (simp add: sendMessage_plain [OF plain_texts(1) plain_texts(2)] sample_phones
                  storeCap_fields maxRowid_def)
  show ?thesis
    using a b cnt late_monday by (simp add: pending_bob note_for_bob c)
qed

section \<open>The key of the daily counter\<close>

text \<open>No step of the scheduler or of the injector lowers a counter.\<close>

lemma daily_counter_never_decreases:
  "(checkUserForMessage z env rnd now s u = Inr (s', r) \<longrightarrow>
      counterValue (daily_limits s) k \<le> counterValue (daily_limits s') k) \<and>
   (processSingleInjection z env now s pm = Inr (s'', r') \<longrightarrow>
      counterValue (daily_limits s) k \<le> counterValue (daily_limits s'') k)"
  using counter_checkUser_mono counter_injection_mono by blast

text \<open>
  Claim C4. Every read and every increment of the Daily Counter uses the date in the
  recipient's own zone. The scheduler does (\<open>counter_updateUserProgress\<close>,
  \<open>checkDailyLimit_count\<close>); the injector takes the date from the UTC clock. At the
  same instant as above the scheduler reads Bob's counter under the local date 19737 and
  finds 4, the injector reads it under the UTC date 19738 and finds 0, and the
  injector's update counts the message under 19738, leaving the local date at 4.
\<close>

theorem injector_counter_keyed_by_utc_date:
  "tz_date usZones ''America/Los_Angeles'' (jan2024 16 1 0) = 19737 \<and>
   utc_date (jan2024 16 1 0) = 19738 \<and>
   localDate (checkDailyLimit usZones (jan2024 16 1 0) storeCap ''+12135550111'') = 19737 \<and>
   messagesSentToday (checkDailyLimit usZones (jan2024 16 1 0) storeCap ''+12135550111'') = 4 \<and>
   checkDailyLimit_injector (jan2024 16 1 0) storeCap ''+12135550111'' = 0 \<and>
   counterValue (daily_limits (updateUserAfterInjection (jan2024 16 1 0) storeCap ''+12135550111''))
     (''+12135550111'', 19737) = 4 \<and>
   counterValue (daily_limits (updateUserAfterInjection (jan2024 16 1 0) storeCap ''+12135550111''))
     (''+12135550111'', 19738) = 1"
proof -
  have z: "zoneOrDefault (case users storeCap ''+12135550111'' of None \<Rightarrow> None
             | Some r \<Rightarrow> timezone r) = ''America/Los_Angeles''"
    by (simp add: storeCap_fields store0_def bob_zone zoneOrDefault_Some)
  have "localDate (checkDailyLimit usZones (jan2024 16 1 0) storeCap ''+12135550111'') = 19737"
    by (simp add: checkDailyLimit_def Let_def z late_monday)
  moreover have "messagesSentToday (checkDailyLimit usZones (jan2024 16 1 0) storeCap ''+12135550111'') = 4"
    by (simp only: checkDailyLimit_count z late_monday)
       (simp add: storeCap_fields counterValue_def)
  moreover have "checkDailyLimit_injector (jan2024 16 1 0) storeCap ''+12135550111'' = 0"
    by (simp add: checkDailyLimit_injector_count late_monday storeCap_fields counterValue_def)
  moreover have "counterValue (daily_limits (updateUserAfterInjection (jan2024 16 1 0) storeCap
      ''+12135550111'')) (''+12135550111'', 19737) = 4"
    by (simp only: counter_updateUserAfterInjection late_monday)
       (simp add: storeCap_fields counterValue_def)
  moreover have "counterValue (daily_limits (updateUserAfterInjection (jan2024 16 1 0) storeCap
      ''+12135550111'')) (''+12135550111'', 19738) = 1"
    by (simp only: counter_updateUserAfterInjection late_monday)
       (simp add: storeCap_fields counterValue_def)
  ultimately show ?thesis
    by (simp add: late_monday)
qed

section \<open>What a send writes\<close>















section \<open>Paths through the response handler\<close>

lemma handleSystemCommands_other:
  "\<not> isSystemCommand m \<Longrightarrow> handleSystemCommands env now s p m = (s, NotHandled)"
  by (simp add: handleSystemCommands_def isSystemCommand_def Let_def)

lemma handleSystemCommands_handled:
  "isSystemCommand m \<Longrightarrow> handled (snd (handleSystemCommands env now s p m))"
  by (auto simp: handleSystemCommands_def isSystemCommand_def Let_def)

lemma isCrisisKeyword_table: "isCrisisKeyword m \<longleftrightarrow> map_of crisisKeywords m \<noteq> None"
  by (auto simp: isCrisisKeyword_def crisisKeywords_def)

lemma handleCrisisKeywords_other:
  "\<not> isCrisisKeyword m \<Longrightarrow> handleCrisisKeywords env now s p m = (s, NotHandled)"
  by (simp add: handleCrisisKeywords_def isCrisisKeyword_table)

lemma handleCrisisKeywords_handled:
  "isCrisisKeyword m \<Longrightarrow>
   snd (handleCrisisKeywords env now s p m) =
     Handled ''crisis_support'' (''Crisis keyword '' @ dq @ m @ dq @ '' handled'')"
  by (auto simp: handleCrisisKeywords_def isCrisisKeyword_table Let_def)

lemma handleCrisisKeywords_is_handled:
  "isCrisisKeyword m \<Longrightarrow> handled (snd (handleCrisisKeywords env now s p m))"
  by (simp add: handleCrisisKeywords_handled)

lemma handleUnrecognizedMessage_result:
  "snd (handleUnrecognizedMessage env now s p b) =
     Handled ''unrecognized'' ''Sent help response for unrecognized message''"
  by (simp add: handleUnrecognizedMessage_def Let_def)

lemma handleUnrecognizedMessage_store:
  "fst (handleUnrecognizedMessage env now s p b) =
     fst (sendMessage env now s p (helpText (nameOf (users s p))) ''unrecognized_response'')"
  by (simp add: handleUnrecognizedMessage_def Let_def helpText_def getUser_def)

lemma processIncomingMessage_steps:
  "processIncomingMessage env now s (Some phone) (Some body) =
     (let p = normalizePhoneNumber phone; m = cleanMessage body
      in if isSystemCommand m then handleSystemCommands env now s p m
         else if isCrisisKeyword m then handleCrisisKeywords env now s p m
         else if handled (snd (handleInteractiveResponse env now s p m))
           then handleInteractiveResponse env now s p m
         else handleUnrecognizedMessage env now (fst (handleInteractiveResponse env now s p m)) p body)"
proof -
  let ?p = "normalizePhoneNumber phone" and ?m = "cleanMessage body"
  show ?thesis
  proof (cases "isSystemCommand ?m")
    case True
    then show ?thesis
      using handleSystemCommands_handled [of ?m env now s ?p]
      by (simp add: processIncomingMessage_def Let_def cleanMessage_def case_prod_beta)
  next
    case cmd: False
    show ?thesis
    proof (cases "isCrisisKeyword ?m")
      case True
      then show ?thesis
        using cmd handleCrisisKeywords_is_handled [of ?m env now s ?p]
        by (simp add: processIncomingMessage_def Let_def cleanMessage_def
                      handleSystemCommands_other [unfolded cleanMessage_def] case_prod_beta)
    next
      case False
      then show ?thesis
        using cmd
        by (simp add: processIncomingMessage_def Let_def cleanMessage_def
                      handleSystemCommands_other [unfolded cleanMessage_def]
                      handleCrisisKeywords_other [unfolded cleanMessage_def] case_prod_beta)
    qed
  qed
qed

lemma handleSystemCommands_actions:
  "snd (handleSystemCommands env now s p m) \<noteq> Handled ''interactive_response'' x \<and>
   snd (handleSystemCommands env now s p m) \<noteq> Handled ''invalid_response'' x"
  by (simp add: handleSystemCommands_def Let_def)

lemma handleCrisisKeywords_actions:
  "snd (handleCrisisKeywords env now s p m) \<noteq> Handled ''interactive_response'' x \<and>
   snd (handleCrisisKeywords env now s p m) \<noteq> Handled ''invalid_response'' x"
  by (simp add: handleCrisisKeywords_def Let_def split: option.splits)

lemma handleUnrecognizedMessage_actions:
  "snd (handleUnrecognizedMessage env now s p b) \<noteq> Handled ''interactive_response'' x \<and>
   snd (handleUnrecognizedMessage env now s p b) \<noteq> Handled ''invalid_response'' x"
  by (simp add: handleUnrecognizedMessage_result)

lemma interactive_result_only_from_step:
  assumes "snd (processIncomingMessage env now s (Some phone) (Some body)) = Handled a x"
    and "a = ''interactive_response'' \<or> a = ''invalid_response''"
  shows "\<not> isSystemCommand (cleanMessage body) \<and> \<not> isCrisisKeyword (cleanMessage body) \<and>
         handleInteractiveResponse env now s (normalizePhoneNumber phone) (cleanMessage body) =
           processIncomingMessage env now s (Some phone) (Some body)"
proof -
  let ?p = "normalizePhoneNumber phone" and ?m = "cleanMessage body"
  note steps = processIncomingMessage_steps [of env now s phone body, unfolded Let_def]
  have 1: "\<not> isSystemCommand ?m"
    using assms handleSystemCommands_actions [of env now s ?p ?m x] by (auto simp: steps)
  have 2: "\<not> isCrisisKeyword ?m"
    using assms 1 handleCrisisKeywords_actions [of env now s ?p ?m x] by (auto simp: steps)
  have 3: "handled (snd (handleInteractiveResponse env now s ?p ?m))"
    using assms 1 2
      handleUnrecognizedMessage_actions [of env now "fst (handleInteractiveResponse env now s ?p ?m)" ?p body x]
    by (auto simp: steps split: if_splits)
  show ?thesis
    using 1 2 3 by (simp add: steps)
qed

lemma parenMatches_range:
  "set (parenMatches t) \<subseteq> {''A)'', ''B)'', ''C)'', ''D)''}"
  by (induction t rule: parenMatches.induct) auto

lemma slashMatches_range:
  "set (slashMatches t) \<subseteq> {''A'', ''B'', ''C'', ''D''}"
  by (induction t rule: slashMatches.induct) auto

lemma extractResponseOptions_range:
  "set (extractResponseOptions t) \<subseteq> {''A'', ''B'', ''C'', ''D''}"
proof -
  have "remove1 (CHR '')'') x \<in> {''A'', ''B'', ''C'', ''D''}" if "x \<in> set (parenMatches t)" for x
    using that parenMatches_range [of t] by auto
  then show ?thesis
    using slashMatches_range [of t]
    by (auto simp: extractResponseOptions_def Let_def)
qed

lemma users_clearAwaitingResponse:
  "users (clearAwaitingResponse s p) q =
     (if q = p then map_option (\<lambda>r. r\<lparr>awaiting_response := None, awaiting_response_since := None\<rparr>)
                      (users s p)
      else users s q)"
  by (simp add: clearAwaitingResponse_def updateUser_apply)

lemma clearAwaitingResponse_frame:
  "outbox (clearAwaitingResponse s p) = outbox s"
  "message_history (clearAwaitingResponse s p) = message_history s"
  "messages (clearAwaitingResponse s p) = messages s"
  "daily_limits (clearAwaitingResponse s p) = daily_limits s"
  by (simp_all add: clearAwaitingResponse_def)

lemma nameOf_clearAwaitingResponse:
  "nameOf (users (clearAwaitingResponse s p) q) = nameOf (users s q)"
  by (cases "users s p") (simp_all add: users_clearAwaitingResponse nameOf_def)



lemma maxRowid_Nil: "maxRowid [] = None"
  by (simp add: maxRowid_def)



lemma recordInteractiveResponse_frame:
  "users (recordInteractiveResponse now s p mid r) = users s"
  "outbox (recordInteractiveResponse now s p mid r) = outbox s"
  "messages (recordInteractiveResponse now s p mid r) = messages s"
  by (simp_all add: recordInteractiveResponse_def Let_def)



lemma interactive_idle:
  "users s p = None \<or> (\<exists>u. users s p = Some u \<and> awaiting_response u \<in> {None, Some []}) \<Longrightarrow>
   handleInteractiveResponse env now s p response = (s, NotHandled)"
  by (auto simp: handleInteractiveResponse_def getUser_def)

lemma interactive_expired:
  "users s p = Some u \<Longrightarrow> awaiting_response u = Some mid \<Longrightarrow> mid \<noteq> [] \<Longrightarrow>
   \<not> withinWindow env now u \<Longrightarrow>
   handleInteractiveResponse env now s p response = (clearAwaitingResponse s p, NotHandled)"
  by (simp add: handleInteractiveResponse_def getUser_def withinWindow_def Let_def)

lemma interactive_missing:
  "users s p = Some u \<Longrightarrow> awaiting_response u = Some mid \<Longrightarrow> mid \<noteq> [] \<Longrightarrow>
   getMessage s mid = None \<Longrightarrow>
   handleInteractiveResponse env now s p response = (clearAwaitingResponse s p, NotHandled)"
  by (simp add: handleInteractiveResponse_def getUser_def Let_def)

lemma interactive_no_options:
  "users s p = Some u \<Longrightarrow> awaiting_response u = Some mid \<Longrightarrow> mid \<noteq> [] \<Longrightarrow>
   getMessage s mid = Some t \<Longrightarrow> extractResponseOptions (msg_text t) = [] \<Longrightarrow>
   handleInteractiveResponse env now s p response = (clearAwaitingResponse s p, NotHandled)"
  by (simp add: handleInteractiveResponse_def getUser_def Let_def)


lemma interactive_valid:
  "users s p = Some u \<Longrightarrow> awaiting_response u = Some mid \<Longrightarrow> mid \<noteq> [] \<Longrightarrow>
   withinWindow env now u \<Longrightarrow> getMessage s mid = Some t \<Longrightarrow>
   response \<in> set (extractResponseOptions (msg_text t)) \<Longrightarrow>
   handleInteractiveResponse env now s p response =
     (clearAwaitingResponse
        (recordInteractiveResponse now
           (fst (sendMessage env now s p (fst (followUp s u mid response))
                   (snd (followUp s u mid response)))) p mid response) p,
      Handled ''interactive_response''
        (''Interactive response '' @ dq @ response @ dq @ '' processed''))"
  by (auto simp: handleInteractiveResponse_def getUser_def withinWindow_def Let_def
                 followUp_def split: option.splits)

lemma interactive_accepts_only_options:
  "handleInteractiveResponse env now s p response = (s', Handled ''interactive_response'' msg) \<Longrightarrow>
   response \<in> {''A'', ''B'', ''C'', ''D''}"
  using extractResponseOptions_range
  by (auto simp: handleInteractiveResponse_def getUser_def Let_def
           split: option.splits if_splits)

lemma interactive_not_handled:
  "\<not> handled (snd (handleInteractiveResponse env now s p response)) \<Longrightarrow>
   fst (handleInteractiveResponse env now s p response) = s \<or>
   fst (handleInteractiveResponse env now s p response) = clearAwaitingResponse s p"
  by (auto simp: handleInteractiveResponse_def getUser_def Let_def
           split: option.splits if_splits)

lemma steady_window:
  "steadyClock env t \<Longrightarrow> setHoursPlus24 env t = t + 24 * 3600000"
  by (simp add: setHoursPlus24_def steadyClock_def Let_def)

lemma steady_withinWindow:
  "steadyClock env (awaitingSince u) \<Longrightarrow>
   withinWindow env now u \<longleftrightarrow> now \<le> awaitingSince u + 24 * 3600000"
  by (auto simp: withinWindow_def steady_window)

lemma delivers_steady: "steadyClock delivers t"
  by (simp add: steadyClock_def delivers_def)

lemma awaiting_fields:
  "users (awaiting mid since) ''+13125550100'' =
     Some (ann\<lparr>awaiting_response := Some mid, awaiting_response_since := Some since\<rparr>)"
  "messages (awaiting mid since) = catalogue"
  "outbox (awaiting mid since) = []"
  "message_history (awaiting mid since) = deliveryLog"
  "getMessage (awaiting mid since) = getMessage store0"
  by (simp_all add: awaiting_def store0_def getMessage_def fun_eq_iff)

lemma catalogue_lookup:
  "getMessage store0 ''q2'' = Some (checkIn)"
  "getMessage store0 ''q2b'' = Some (checkInB)"
  "getMessage store0 ''q9'' = Some (openQuestion)"
  "getMessage store0 ''q2e'' = None"
  "getMessage store0 ''q2a'' = None"
  by (simp_all add: getMessage_def store0_def template_defs)

lemma catalogue_options:
  "extractResponseOptions (msg_text (checkIn)) = [''A'', ''B'', ''C'', ''D'']"
  "extractResponseOptions (msg_text (openQuestion)) = []"
  by (simp_all add: template_defs extractResponseOptions_def)

lemma an_hour_later:
  "withinWindow delivers (jan2024 8 17 0)
     (ann\<lparr>awaiting_response := Some mid, awaiting_response_since := Some (jan2024 8 16 0)\<rparr>)"
  by (simp add: steady_withinWindow delivers_steady awaitingSince_def jan2024_def)



lemma deliveryLog_next: "maxRowid deliveryLog = Some 3"
  by (simp add: maxRowid_def deliveryLog_def delivered_def)

lemma follow_up_for_ann:
  "personalizeMessage (msg_text (checkInB)) (Some ''Ann'') = ''Okay is fine, Ann. Keep going.''"
  by (simp add: template_defs personalizeMessage_def startsWith_def)

lemma plain_phone: "normalizePhoneNumber ''(312) 555-0100'' = ''+13125550100''"
  by (simp add: normalizePhoneNumber_def isDigit_def startsWith_def)

lemma clean_examples:
  "cleanMessage '' b '' = ''B''" "cleanMessage ''a'' = ''A''" "cleanMessage ''Stop'' = ''STOP''"
  "cleanMessage ''help'' = ''HELP''" "cleanMessage ''hello'' = ''HELLO''"
  by (simp_all add: cleanMessage_def toUpperCase_def trim_def isSpace_def upperChar_def)

lemma not_keywords:
  "\<not> isSystemCommand ''B''" "\<not> isCrisisKeyword ''B''"
  "\<not> isSystemCommand ''A''" "\<not> isCrisisKeyword ''A''"
  "\<not> isSystemCommand ''HELLO''" "\<not> isCrisisKeyword ''HELLO''"
  "isSystemCommand ''STOP''" "\<not> isSystemCommand ''HELP''" "isCrisisKeyword ''HELP''"
  by (simp_all add: isSystemCommand_def isCrisisKeyword_def)

lemma help_texts:
  "helpText (Some ''Ann'') =
     ''Hi Ann! Thanks for your message. Reply HELP for support, or visit healthytext.com for more options. Text STOP to unsubscribe.''"
  "helpText None =
     ''Hi ! Thanks for your message. Reply HELP for support, or visit healthytext.com for more options. Text STOP to unsubscribe.''"
  by (simp_all add: helpText_def nameOrEmpty_def)

lemma help_texts_plain:
  "\<not> includesStr ''Hi Ann! Thanks for your message. Reply HELP for support, or visit healthytext.com for more options. Text STOP to unsubscribe.'' ''A)''"
  "\<not> includesStr ''Hi Ann! Thanks for your message. Reply HELP for support, or visit healthytext.com for more options. Text STOP to unsubscribe.'' ''Reply:''"
  "\<not> includesStr ''Hi ! Thanks for your message. Reply HELP for support, or visit healthytext.com for more options. Text STOP to unsubscribe.'' ''A)''"
  "\<not> includesStr ''Hi ! Thanks for your message. Reply HELP for support, or visit healthytext.com for more options. Text STOP to unsubscribe.'' ''Reply:''"
  by (simp_all add: startsWith_def)

lemma help_text_for_ann:
  "handleUnrecognizedMessage delivers now (clearAwaitingResponse (awaiting mid since) ''+13125550100'')
     ''+13125550100'' b =
   ((clearAwaitingResponse (awaiting mid since) ''+13125550100'')
      \<lparr>outbox := [(''+13125550100'',
          ''Hi Ann! Thanks for your message. Reply HELP for support, or visit healthytext.com for more options. Text STOP to unsubscribe.'',
          ''unrecognized_response'')],
       message_history := deliveryLog @
         [delivered 4 ''+13125550100'' ''unrecognized_response'' now]\<rparr>,
    Handled ''unrecognized'' ''Sent help response for unrecognized message'')"
proof -
  let ?s = "clearAwaitingResponse (awaiting mid since) ''+13125550100''"
  have n: "nameOf (users ?s ''+13125550100'') = Some ''Ann''"
    by (simp only: nameOf_clearAwaitingResponse awaiting_fields)
       (simp add: nameOf_def ann_fields)
  have "fst (handleUnrecognizedMessage delivers now ?s ''+13125550100'' b) =
        ?s\<lparr>outbox := [(''+13125550100'', helpText (Some ''Ann''), ''unrecognized_response'')],
           message_history := deliveryLog @
             [delivered 4 ''+13125550100'' ''unrecognized_response'' now]\<rparr>"
    unfolding handleUnrecognizedMessage_store n help_texts
    by (simp add: sendMessage_plain [OF help_texts_plain(1) help_texts_plain(2)] sample_phones
                  clearAwaitingResponse_frame awaiting_fields deliveryLog_next)
  then show ?thesis
    by (simp add: prod_eq_iff handleUnrecognizedMessage_result help_texts)
qed

lemma stop_result:
  "snd (handleSystemCommands env now s p ''STOP'') = Handled ''stopped'' ''User stopped successfully''"
  by (simp add: handleSystemCommands_def Let_def)

lemma idle_ann: "handleInteractiveResponse env now store0 ''+13125550100'' r = (store0, NotHandled)"
  by (rule interactive_idle) (simp add: store0_users ann_def)

lemma help_text_unknown:
  "users s p = None \<Longrightarrow>
   handleUnrecognizedMessage delivers now s p b =
     (s\<lparr>outbox := outbox s @ [(sendMessage_normalizedPhone p,
         ''Hi ! Thanks for your message. Reply HELP for support, or visit healthytext.com for more options. Text STOP to unsubscribe.'',
         ''unrecognized_response'')],
        message_history := message_history s @
          [delivered (case maxRowid (message_history s) of None \<Rightarrow> 1 | Some m \<Rightarrow> m + 1)
             (sendMessage_normalizedPhone p) ''unrecognized_response'' now]\<rparr>,
      Handled ''unrecognized'' ''Sent help response for unrecognized message'')"
proof -
  assume u: "users s p = None"
  have "fst (handleUnrecognizedMessage delivers now s p b) =
        s\<lparr>outbox := outbox s @ [(sendMessage_normalizedPhone p, helpText None,
                                  ''unrecognized_response'')],
          message_history := message_history s @
            [delivered (case maxRowid (message_history s) of None \<Rightarrow> 1 | Some m \<Rightarrow> m + 1)
               (sendMessage_normalizedPhone p) ''unrecognized_response'' now]\<rparr>"
    unfolding handleUnrecognizedMessage_store u nameOf_def option.case help_texts
    by (simp add: sendMessage_plain [OF help_texts_plain(3) help_texts_plain(4)])
  then show ?thesis
    by (simp add: prod_eq_iff handleUnrecognizedMessage_result help_texts)
qed

lemma follow_up_plain:
  "\<not> includesStr ''Okay is fine, Ann. Keep going.'' ''A)''"
  "\<not> includesStr ''Okay is fine, Ann. Keep going.'' ''Reply:''"
  by (simp_all add: startsWith_def)

lemma follow_up_q2b:
  "followUp (awaiting ''q2'' since)
     (ann\<lparr>awaiting_response := Some ''q2'', awaiting_response_since := Some since\<rparr>) ''q2'' ''B'' =
   (''Okay is fine, Ann. Keep going.'', ''q2b'')"
  by (simp add: followUp_def awaiting_fields catalogue_lookup toLowerCase_def lowerChar_def
                follow_up_for_ann ann_fields)




section \<open>The order of the reply steps\<close>

text \<open>
  Claim C5. \<open>processIncomingMessage\<close> tries the steps in the order system command
  (STOP, START, RESET), crisis keyword, interactive response, fallback. The first step
  that handles the reply gives the result and the store, with no effect of a later step;
  a reply that none of the first three handles is answered by the fallback, which sends
  the help message to the sender: it is the one message that goes out. So the result of
  every reply is handled. Only a call that lacks the phone number or the body, where a
  method call throws and the catch block answers, gives handled false with an error, and
  leaves the store as it was.
\<close>

theorem reply_priority_order:
  "(let p = normalizePhoneNumber phone; m = cleanMessage body;
        res = processIncomingMessage env now s (Some phone) (Some body)
    in handled (snd res) \<and>
       (isSystemCommand m \<longrightarrow> res = handleSystemCommands env now s p m) \<and>
       (\<not> isSystemCommand m \<and> isCrisisKeyword m \<longrightarrow>
          res = handleCrisisKeywords env now s p m \<and>
          snd res = Handled ''crisis_support'' (''Crisis keyword '' @ dq @ m @ dq @ '' handled'')) \<and>
       (\<not> isSystemCommand m \<and> \<not> isCrisisKeyword m \<and>
        handled (snd (handleInteractiveResponse env now s p m)) \<longrightarrow>
          res = handleInteractiveResponse env now s p m) \<and>
       (\<not> isSystemCommand m \<and> \<not> isCrisisKeyword m \<and>
        \<not> handled (snd (handleInteractiveResponse env now s p m)) \<longrightarrow>
          res = handleUnrecognizedMessage env now (fst (handleInteractiveResponse env now s p m)) p body \<and>
          snd res = Handled ''unrecognized'' ''Sent help response for unrecognized message'' \<and>
          outbox (fst res) =
            outbox s @ [(p, helpText (nameOf (users s p)), ''unrecognized_response'')])) \<and>
   processIncomingMessage env now s None b =
     (s, Failed ''Cannot read properties of undefined (reading 'replace')'') \<and>
   processIncomingMessage env now s (Some phone) None =
     (s, Failed ''Cannot read properties of undefined (reading 'trim')'')"
proof -
  let ?p = "normalizePhoneNumber phone" and ?m = "cleanMessage body"
  let ?res = "processIncomingMessage env now s (Some phone) (Some body)"
  let ?i = "handleInteractiveResponse env now s ?p ?m"
  note steps = processIncomingMessage_steps [of env now s phone body, unfolded Let_def]
  have 1: "isSystemCommand ?m \<Longrightarrow> ?res = handleSystemCommands env now s ?p ?m"
    by (simp add: steps)
  have 2: "\<not> isSystemCommand ?m \<Longrightarrow> isCrisisKeyword ?m \<Longrightarrow> ?res = handleCrisisKeywords env now s ?p ?m"
    by (simp add: steps)
  have 3: "\<not> isSystemCommand ?m \<Longrightarrow> \<not> isCrisisKeyword ?m \<Longrightarrow> handled (snd ?i) \<Longrightarrow> ?res = ?i"
    by (simp add: steps)
  have 4: "\<not> isSystemCommand ?m \<Longrightarrow> \<not> isCrisisKeyword ?m \<Longrightarrow> \<not> handled (snd ?i) \<Longrightarrow>
           ?res = handleUnrecognizedMessage env now (fst ?i) ?p body"
    by (simp add: steps)
  have h: "handled (snd ?res)"
    using 1 2 3 4 handleSystemCommands_handled [of ?m env now s ?p]
      handleCrisisKeywords_is_handled [of ?m env now s ?p]
      handleUnrecognizedMessage_result [of env now "fst ?i" ?p body]
    by (cases "isSystemCommand ?m"; cases "isCrisisKeyword ?m"; cases "handled (snd ?i)") simp_all
  have o: "outbox (fst (handleUnrecognizedMessage env now (fst ?i) ?p body)) =
             outbox s @ [(?p, helpText (nameOf (users s ?p)), ''unrecognized_response'')]"
    if n: "\<not> handled (snd ?i)"
  proof -
    from interactive_not_handled [OF n]
    have "outbox (fst ?i) = outbox s \<and> nameOf (users (fst ?i) ?p) = nameOf (users s ?p)"
      by (auto simp: clearAwaitingResponse_frame nameOf_clearAwaitingResponse)
    then show ?thesis
      by (simp add: handleUnrecognizedMessage_store sendMessage_outbox normalized_twice)
  qed
  have e: "processIncomingMessage env now s None b =
             (s, Failed ''Cannot read properties of undefined (reading 'replace')'')"
          "processIncomingMessage env now s (Some phone) None =
             (s, Failed ''Cannot read properties of undefined (reading 'trim')'')"
    by (simp_all add: processIncomingMessage_def)
  show ?thesis
    unfolding Let_def
    using h 1 2 3 4 e o handleCrisisKeywords_handled [of ?m env now s ?p]
      handleUnrecognizedMessage_result [of env now "fst ?i" ?p body]
    by simp
qed

theorem reply_priority_order_witness:
  "snd (processIncomingMessage delivers (jan2024 8 17 0) (awaiting ''q2'' (jan2024 8 16 0))
          (Some ''(312) 555-0100'') (Some ''Stop'')) =
     Handled ''stopped'' ''User stopped successfully'' \<and>
   snd (processIncomingMessage delivers (jan2024 8 17 0) (awaiting ''q2'' (jan2024 8 16 0))
          (Some ''(312) 555-0100'') (Some ''help'')) =
     Handled ''crisis_support'' (''Crisis keyword '' @ dq @ ''HELP'' @ dq @ '' handled'') \<and>
   snd (processIncomingMessage delivers (jan2024 8 17 0) (awaiting ''q2'' (jan2024 8 16 0))
          (Some ''(312) 555-0100'') (Some '' b '')) =
     Handled ''interactive_response'' (''Interactive response '' @ dq @ ''B'' @ dq @ '' processed'') \<and>
   snd (processIncomingMessage delivers (jan2024 8 17 0) store0
          (Some ''(312) 555-0100'') (Some ''hello'')) =
     Handled ''unrecognized'' ''Sent help response for unrecognized message'' \<and>
   outbox (fst (processIncomingMessage delivers (jan2024 8 17 0) store0
          (Some ''(312) 555-0100'') (Some ''hello''))) =
     [(''+13125550100'',
       ''Hi Ann! Thanks for your message. Reply HELP for support, or visit healthytext.com for more options. Text STOP to unsubscribe.'',
       ''unrecognized_response'')] \<and>
   \<not> handled (snd (processIncomingMessage delivers (jan2024 8 17 0) store0 None (Some ''hello'')))"
proof -
  let ?s = "awaiting ''q2'' (jan2024 8 16 0)" and ?now = "jan2024 8 17 0"
  let ?u = "ann\<lparr>awaiting_response := Some ''q2'', awaiting_response_since := Some (jan2024 8 16 0)\<rparr>"
  note inst = reply_priority_order [where env = delivers and now = ?now
      and phone = "''(312) 555-0100''" and b = "Some ''hello''", unfolded Let_def]
  have a: "snd (processIncomingMessage delivers ?now ?s (Some ''(312) 555-0100'') (Some ''Stop'')) =
             Handled ''stopped'' ''User stopped successfully''"
    using inst [where s = ?s and body = "''Stop''"]
    by (simp add: clean_examples not_keywords stop_result)
  have b: "snd (processIncomingMessage delivers ?now ?s (Some ''(312) 555-0100'') (Some ''help'')) =
             Handled ''crisis_support'' (''Crisis keyword '' @ dq @ ''HELP'' @ dq @ '' handled'')"
    using inst [where s = ?s and body = "''help''"]
    by (simp add: clean_examples not_keywords handleCrisisKeywords_handled)
  have v: "snd (handleInteractiveResponse delivers ?now ?s ''+13125550100'' ''B'') =
      Handled ''interactive_response'' (''Interactive response '' @ dq @ ''B'' @ dq @ '' processed'')"
    using interactive_valid [where t = checkIn and s = ?s and p = "''+13125550100''" and u = ?u
        and mid = "''q2''" and env = delivers and now = ?now and response = "''B''"]
    by (simp add: awaiting_fields catalogue_lookup catalogue_options an_hour_later)
  have c: "snd (processIncomingMessage delivers ?now ?s (Some ''(312) 555-0100'') (Some '' b '')) =
             Handled ''interactive_response''
               (''Interactive response '' @ dq @ ''B'' @ dq @ '' processed'')"
    using inst [where s = ?s and body = "'' b ''"]
    by (simp add: clean_examples not_keywords plain_phone v)
  have d: "snd (processIncomingMessage delivers ?now store0 (Some ''(312) 555-0100'') (Some ''hello'')) =
             Handled ''unrecognized'' ''Sent help response for unrecognized message'' \<and>
           outbox (fst (processIncomingMessage delivers ?now store0 (Some ''(312) 555-0100'')
                          (Some ''hello''))) =
             [(''+13125550100'', helpText (Some ''Ann''), ''unrecognized_response'')]"
    using inst [where s = store0 and body = "''hello''"]
    by (auto simp: clean_examples not_keywords plain_phone idle_ann handleUnrecognizedMessage_result
                   store0_users nameOf_def ann_fields)
  have e: "\<not> handled (snd (processIncomingMessage delivers ?now store0 None (Some ''hello'')))"
    using inst [where s = store0 and body = "''hello''"] by simp
  show ?thesis
    using a b c d e by (simp add: help_texts)
qed

section \<open>Answers to an interactive template\<close>







section \<open>Expiry of the awaiting state\<close>

text \<open>
  When the reply comes after the end of the response window, the interactive step, for
  every reply that it is given, clears the state, sends nothing, touches no delivery
  record and returns not handled; \<open>processIncomingMessage\<close> is then never the
  interactive step's acceptance or reprompt, it gives the reply to the fallback, and its
  result is the fallback's handled result, not an error. (A system command or a crisis
  keyword is taken by step 1 or 2 before the interactive step.) The window ends 24 hours
  after the send when the server's zone has one offset over that day
  (\<open>expired_after_24_hours\<close>); on a server in the zone America/Chicago it ends after
  23 hours when daylight time begins inside it and after 25 hours when daylight time
  ends inside it.
\<close>

lemma expired_state_falls_through:
  assumes "users s p = Some u" and "awaiting_response u = Some mid" and "mid \<noteq> []"
    and "\<not> withinWindow env now u"
  shows "handleInteractiveResponse env now s p response = (clearAwaitingResponse s p, NotHandled) \<and>
         users (clearAwaitingResponse s p) p =
           Some (u\<lparr>awaiting_response := None, awaiting_response_since := None\<rparr>) \<and>
         outbox (clearAwaitingResponse s p) = outbox s \<and>
         message_history (clearAwaitingResponse s p) = message_history s \<and>
         (normalizePhoneNumber phone = p \<longrightarrow>
            snd (processIncomingMessage env now s (Some phone) (Some body)) \<noteq>
              Handled ''interactive_response'' x \<and>
            snd (processIncomingMessage env now s (Some phone) (Some body)) \<noteq>
              Handled ''invalid_response'' x) \<and>
         (normalizePhoneNumber phone = p \<and> \<not> isSystemCommand (cleanMessage body) \<and>
          \<not> isCrisisKeyword (cleanMessage body) \<longrightarrow>
            processIncomingMessage env now s (Some phone) (Some body) =
              handleUnrecognizedMessage env now (clearAwaitingResponse s p) p body \<and>
            snd (processIncomingMessage env now s (Some phone) (Some body)) =
              Handled ''unrecognized'' ''Sent help response for unrecognized message'')"
proof -
  have i: "handleInteractiveResponse env now s p r = (clearAwaitingResponse s p, NotHandled)" for r
    using assms by (rule interactive_expired)
  have f: "normalizePhoneNumber phone = p \<Longrightarrow> \<not> isSystemCommand (cleanMessage body) \<Longrightarrow>
           \<not> isCrisisKeyword (cleanMessage body) \<Longrightarrow>
           processIncomingMessage env now s (Some phone) (Some body) =
             handleUnrecognizedMessage env now (clearAwaitingResponse s p) p body"
    by (simp add: processIncomingMessage_steps Let_def i)
  have n: "snd (processIncomingMessage env now s (Some phone) (Some body)) \<noteq> Handled a x"
    if "normalizePhoneNumber phone = p" and "a = ''interactive_response'' \<or> a = ''invalid_response''"
    for a
  proof
    assume "snd (processIncomingMessage env now s (Some phone) (Some body)) = Handled a x"
    from interactive_result_only_from_step [OF this that(2)]
    have "snd (handleInteractiveResponse env now s p (cleanMessage body)) = Handled a x"
      using that(1) \<open>snd (processIncomingMessage env now s (Some phone) (Some body)) = Handled a x\<close>
      by simp
    then show False by (simp add: i)
  qed
  show ?thesis
    using assms(1) i f n
    by (simp add: users_clearAwaitingResponse clearAwaitingResponse_frame
                  handleUnrecognizedMessage_result)
qed

lemma expired_after_24_hours:
  assumes "users s p = Some u" and "awaiting_response u = Some mid" and "mid \<noteq> []"
    and "awaiting_response_since u = Some since" and "steadyClock env since"
    and "now > since + 24 * 3600000"
  shows "handleInteractiveResponse env now s p response = (clearAwaitingResponse s p, NotHandled)"
proof -
  have "\<not> withinWindow env now u"
    using assms(4-6) by (simp add: steady_withinWindow awaitingSince_def)
  with assms(1-3) show ?thesis
    by (rule interactive_expired)
qed

lemma end_of_daylight_time:
  "setHoursPlus24 chicagoServer (nov2024 2 22 0) = nov2024 2 22 0 + 25 * 3600000"
  "nov2024 3 22 30 = nov2024 2 22 0 + 24 * 3600000 + 30 * 60000"
  "\<not> steadyClock chicagoServer (nov2024 2 22 0)"
  by (simp_all add: setHoursPlus24_def steadyClock_def chicagoServer_def nov2024_def mar2024_def
                    Let_def)

lemma start_of_daylight_time:
  "setHoursPlus24 chicagoServer (mar2024 9 20 0) = mar2024 9 20 0 + 23 * 3600000"
  "\<not> steadyClock chicagoServer (mar2024 9 20 0)"
  by (simp_all add: setHoursPlus24_def steadyClock_def chicagoServer_def nov2024_def mar2024_def
                    Let_def)

lemma ordinary_day:
  "steadyClock chicagoServer (mar2024 11 20 0)"
  "setHoursPlus24 chicagoServer (mar2024 11 20 0) = mar2024 11 20 0 + 24 * 3600000"
  by (simp_all add: setHoursPlus24_def steadyClock_def chicagoServer_def nov2024_def mar2024_def
                    Let_def)

text \<open>
  Claim C7. A reply that arrives more than 24 hours after the awaiting state began is
  never read as an interactive answer. The handler compares the time of the reply with
  the same wall-clock time of the next day on the server. On a server in the zone
  America/Chicago, Ann is sent the check-in \<open>q2\<close> on Saturday 2 November 2024 at 17:00
  (22:00 UTC); daylight time ends that night, so the window ends 25 hours later. Her
  reply \<open>b\<close> on Sunday at 16:30 (22:30 UTC), 24 hours and 30 minutes after the send,
  is taken as the answer B: the follow-up \<open>q2b\<close> goes out and the result is the
  interactive step's.
\<close>

theorem late_reply_read_as_answer:
  "nov2024 3 22 30 > nov2024 2 22 0 + 24 * 3600000 \<and>
   awaiting_response_since (the (users (awaiting ''q2'' (nov2024 2 22 0)) ''+13125550100'')) =
     Some (nov2024 2 22 0) \<and>
   setHoursPlus24 chicagoServer (nov2024 2 22 0) = nov2024 2 22 0 + 25 * 3600000 \<and>
   snd (handleInteractiveResponse chicagoServer (nov2024 3 22 30) (awaiting ''q2'' (nov2024 2 22 0))
          ''+13125550100'' ''B'') =
     Handled ''interactive_response'' (''Interactive response '' @ dq @ ''B'' @ dq @ '' processed'') \<and>
   snd (processIncomingMessage chicagoServer (nov2024 3 22 30) (awaiting ''q2'' (nov2024 2 22 0))
          (Some ''(312) 555-0100'') (Some '' b '')) =
     Handled ''interactive_response'' (''Interactive response '' @ dq @ ''B'' @ dq @ '' processed'') \<and>
   outbox (fst (processIncomingMessage chicagoServer (nov2024 3 22 30)
                  (awaiting ''q2'' (nov2024 2 22 0)) (Some ''(312) 555-0100'') (Some '' b ''))) =
     [(''+13125550100'', ''Okay is fine, Ann. Keep going.'', ''q2b'')] \<and>
   users (fst (processIncomingMessage chicagoServer (nov2024 3 22 30)
                 (awaiting ''q2'' (nov2024 2 22 0)) (Some ''(312) 555-0100'') (Some '' b '')))
     ''+13125550100'' = Some ann"
proof -
  let ?since = "nov2024 2 22 0" and ?now = "nov2024 3 22 30"
  let ?s = "awaiting ''q2'' ?since"
  let ?u = "ann\<lparr>awaiting_response := Some ''q2'', awaiting_response_since := Some ?since\<rparr>"
  let ?i = "handleInteractiveResponse chicagoServer ?now ?s ''+13125550100'' ''B''"
  let ?f = "fst (sendMessage chicagoServer ?now ?s ''+13125550100''
                   ''Okay is fine, Ann. Keep going.'' ''q2b'')"
  have late: "?now > ?since + 24 * 3600000"
    by (simp add: nov2024_def)
  have w: "withinWindow chicagoServer ?now ?u"
    by (simp add: withinWindow_def awaitingSince_def end_of_daylight_time)
  have v: "?i =
     (clearAwaitingResponse
        (recordInteractiveResponse ?now
           (fst (sendMessage chicagoServer ?now ?s ''+13125550100''
                   (fst (followUp ?s ?u ''q2'' ''B'')) (snd (followUp ?s ?u ''q2'' ''B''))))
           ''+13125550100'' ''q2'' ''B'') ''+13125550100'',
      Handled ''interactive_response'' (''Interactive response '' @ dq @ ''B'' @ dq @ '' processed''))"
    by (rule interactive_valid [where t = checkIn])
       (simp_all add: awaiting_fields catalogue_lookup catalogue_options w)
  have r: "snd ?i =
      Handled ''interactive_response'' (''Interactive response '' @ dq @ ''B'' @ dq @ '' processed'')"
    by (simp add: v)
  have o: "outbox (fst ?i) = [(''+13125550100'', ''Okay is fine, Ann. Keep going.'', ''q2b'')]"
    by (simp add: v follow_up_q2b clearAwaitingResponse_frame recordInteractiveResponse_frame
                  sendMessage_outbox sample_phones awaiting_fields)
  have us: "users ?f = users ?s"
    by (rule sendMessage_users_plain [OF follow_up_plain(1) follow_up_plain(2)])
  have u: "users (fst ?i) ''+13125550100'' = Some ann"
    by (simp add: v follow_up_q2b users_clearAwaitingResponse recordInteractiveResponse_frame us
                  awaiting_fields) (simp add: ann_def)
  have p: "processIncomingMessage chicagoServer ?now ?s (Some ''(312) 555-0100'') (Some '' b '') = ?i"
    by (simp add: processIncomingMessage_steps Let_def plain_phone clean_examples not_keywords r)
  show ?thesis
    unfolding p using late r o u
    by (simp add: awaiting_fields end_of_daylight_time)
qed

section \<open>Phone identifiers\<close>

text \<open>
  The normalization of the WordPress sync, repeated in test-phone-matching.js, is the
  contract of the specification.
\<close>

lemma sync_normalization_contract:
  "normalizePhoneNumber_sync (Some p) = specNormalize p"
  by (cases "filter isDigit p")
     (auto simp: normalizePhoneNumber_sync_def specNormalize_def Let_def startsWith_def)

text \<open>
  Claim C8. Normalization strips the non-digits, prepends 1 to ten digits, and accepts
  only eleven digits that start with 1; any other identifier is rejected at every
  boundary and no state is created or changed for it. The response handler and
  \<open>sendMessage\<close> normalize without rejecting: \<open>2-312-285-8457\<close> has eleven digits
  that start with 2, the contract refuses it, and the handler answers it with the help
  message under the identifier \<open>+23122858457\<close>, for which the send function creates a
  delivery record. They also leave the ten digits \<open>1234567890\<close> without a country code.
\<close>

theorem invalid_identifier_is_answered:
  "specNormalize ''2-312-285-8457'' = None \<and>
   normalizePhoneNumber ''2-312-285-8457'' = ''+23122858457'' \<and>
   sendMessage_normalizedPhone ''2-312-285-8457'' = ''+23122858457'' \<and>
   specNormalize ''1234567890'' = Some ''+11234567890'' \<and>
   normalizePhoneNumber ''1234567890'' = ''+1234567890'' \<and>
   processIncomingMessage delivers (jan2024 8 17 0) store0 (Some ''2-312-285-8457'') (Some ''hello'') =
     (store0\<lparr>outbox := [(''+23122858457'',
         ''Hi ! Thanks for your message. Reply HELP for support, or visit healthytext.com for more options. Text STOP to unsubscribe.'',
         ''unrecognized_response'')],
        message_history :=
          [delivered 1 ''+23122858457'' ''unrecognized_response'' (jan2024 8 17 0)]\<rparr>,
      Handled ''unrecognized'' ''Sent help response for unrecognized message'')"
proof -
  have n: "normalizePhoneNumber ''2-312-285-8457'' = ''+23122858457''"
          "sendMessage_normalizedPhone ''2-312-285-8457'' = ''+23122858457''"
          "normalizePhoneNumber ''1234567890'' = ''+1234567890''"
    by (simp_all add: normalizePhoneNumber_def sendMessage_normalizedPhone_def isDigit_def
                      startsWith_def)
  have sp: "specNormalize ''2-312-285-8457'' = None"
           "specNormalize ''1234567890'' = Some ''+11234567890''"
    by (simp_all add: specNormalize_def isDigit_def startsWith_def)
  have u: "users store0 ''+23122858457'' = None"
    by (simp add: store0_def)
  have i: "handleInteractiveResponse delivers (jan2024 8 17 0) store0 ''+23122858457'' ''HELLO'' =
             (store0, NotHandled)"
    by (rule interactive_idle) (simp add: u)
  have "processIncomingMessage delivers (jan2024 8 17 0) store0 (Some ''2-312-285-8457'')
          (Some ''hello'') =
        handleUnrecognizedMessage delivers (jan2024 8 17 0) store0 ''+23122858457'' ''hello''"
    by (simp add: processIncomingMessage_steps Let_def n clean_examples not_keywords i)
  then show ?thesis
    using n sp by (simp add: help_text_unknown [OF u] store0_users sample_phones maxRowid_Nil)
qed

section \<open>Option letters\<close>

text \<open>
  Claim C10. The option set read from a template body holds only the letters A, B, C
  and D, so neither the interactive step nor \<open>processIncomingMessage\<close> accepts any
  other reply as an interactive answer, for any template. When the recipient awaits a
  response to a template whose body gives no option, the interactive step clears the
  awaiting state and returns not handled, whatever the reply and the time, and
  \<open>processIncomingMessage\<close> gives the reply to the fallback. (A system command or a
  crisis keyword is taken by step 1 or 2 before the interactive step.)
\<close>

theorem option_letters_A_to_D:
  "set (extractResponseOptions body) \<subseteq> {''A'', ''B'', ''C'', ''D''} \<and>
   (handleInteractiveResponse env now s p response = (s', Handled ''interactive_response'' msg) \<longrightarrow>
      response \<in> {''A'', ''B'', ''C'', ''D''}) \<and>
   (snd (processIncomingMessage env now s (Some phone) (Some b)) =
      Handled ''interactive_response'' msg \<longrightarrow>
      cleanMessage b \<in> {''A'', ''B'', ''C'', ''D''}) \<and>
   (users s p = Some u \<and> awaiting_response u = Some mid \<and> mid \<noteq> [] \<and>
    getMessage s mid = Some t \<and> extractResponseOptions (msg_text t) = [] \<longrightarrow>
      handleInteractiveResponse env now s p response = (clearAwaitingResponse s p, NotHandled) \<and>
      users (clearAwaitingResponse s p) p =
        Some (u\<lparr>awaiting_response := None, awaiting_response_since := None\<rparr>) \<and>
      (normalizePhoneNumber phone = p \<and> \<not> isSystemCommand (cleanMessage b) \<and>
       \<not> isCrisisKeyword (cleanMessage b) \<longrightarrow>
         processIncomingMessage env now s (Some phone) (Some b) =
           handleUnrecognizedMessage env now (clearAwaitingResponse s p) p b))"
proof (intro conjI impI)
  show "set (extractResponseOptions body) \<subseteq> {''A'', ''B'', ''C'', ''D''}"
    by (rule extractResponseOptions_range)
next
  assume "handleInteractiveResponse env now s p response = (s', Handled ''interactive_response'' msg)"
  then show "response \<in> {''A'', ''B'', ''C'', ''D''}"
    by (rule interactive_accepts_only_options)
next
  assume r: "snd (processIncomingMessage env now s (Some phone) (Some b)) =
      Handled ''interactive_response'' msg"
  from interactive_result_only_from_step [OF r]
  have "handleInteractiveResponse env now s (normalizePhoneNumber phone) (cleanMessage b) =
          (fst (processIncomingMessage env now s (Some phone) (Some b)),
           Handled ''interactive_response'' msg)"
    using r by (metis prod.collapse)
  then show "cleanMessage b \<in> {''A'', ''B'', ''C'', ''D''}"
    by (rule interactive_accepts_only_options)
next
  assume a: "users s p = Some u \<and> awaiting_response u = Some mid \<and> mid \<noteq> [] \<and>
    getMessage s mid = Some t \<and> extractResponseOptions (msg_text t) = []"
  then have i: "handleInteractiveResponse env now s p r = (clearAwaitingResponse s p, NotHandled)" for r
    using interactive_no_options by blast
  show "handleInteractiveResponse env now s p response = (clearAwaitingResponse s p, NotHandled)"
    by (rule i)
  show "users (clearAwaitingResponse s p) p =
        Some (u\<lparr>awaiting_response := None, awaiting_response_since := None\<rparr>)"
    using a by (simp add: users_clearAwaitingResponse)
  assume "normalizePhoneNumber phone = p \<and> \<not> isSystemCommand (cleanMessage b) \<and>
       \<not> isCrisisKeyword (cleanMessage b)"
  then show "processIncomingMessage env now s (Some phone) (Some b) =
           handleUnrecognizedMessage env now (clearAwaitingResponse s p) p b"
    by (simp add: processIncomingMessage_steps Let_def i)
qed

theorem option_letters_A_to_D_witness:
  "extractResponseOptions ''How do you feel today? A) Great B) Okay C) Tired D) Stressed'' =
     [''A'', ''B'', ''C'', ''D''] \<and>
   extractResponseOptions ''Pick one: A/B/C/D'' = [''A'', ''B'', ''C'', ''D''] \<and>
   extractResponseOptions ''E) None of these F) All'' = [] \<and>
   extractResponseOptions (msg_text openQuestion) = [] \<and>
   handleInteractiveResponse delivers (jan2024 8 17 0) (awaiting ''q9'' (jan2024 8 16 0))
       ''+13125550100'' ''E'' =
     (clearAwaitingResponse (awaiting ''q9'' (jan2024 8 16 0)) ''+13125550100'', NotHandled) \<and>
   processIncomingMessage delivers (jan2024 8 17 0) (awaiting ''q9'' (jan2024 8 16 0))
       (Some ''(312) 555-0100'') (Some ''a'') =
     ((clearAwaitingResponse (awaiting ''q9'' (jan2024 8 16 0)) ''+13125550100'')
        \<lparr>outbox := [(''+13125550100'',
            ''Hi Ann! Thanks for your message. Reply HELP for support, or visit healthytext.com for more options. Text STOP to unsubscribe.'',
            ''unrecognized_response'')],
         message_history := deliveryLog @
           [delivered 4 ''+13125550100'' ''unrecognized_response'' (jan2024 8 17 0)]\<rparr>,
      Handled ''unrecognized'' ''Sent help response for unrecognized message'')"
proof -
  let ?s = "awaiting ''q9'' (jan2024 8 16 0)"
  let ?u = "ann\<lparr>awaiting_response := Some ''q9'', awaiting_response_since := Some (jan2024 8 16 0)\<rparr>"
  have h: "users ?s ''+13125550100'' = Some ?u \<and> awaiting_response ?u = Some ''q9'' \<and> ''q9'' \<noteq> [] \<and>
           getMessage ?s ''q9'' = Some openQuestion \<and> extractResponseOptions (msg_text openQuestion) = []"
    by (simp add: awaiting_fields catalogue_lookup catalogue_options)
  have x: "extractResponseOptions ''How do you feel today? A) Great B) Okay C) Tired D) Stressed'' =
             [''A'', ''B'', ''C'', ''D'']"
          "extractResponseOptions ''Pick one: A/B/C/D'' = [''A'', ''B'', ''C'', ''D'']"
          "extractResponseOptions ''E) None of these F) All'' = []"
    by (simp_all add: extractResponseOptions_def)
  note inst = option_letters_A_to_D [where s = ?s and p = "''+13125550100''" and u = ?u
      and mid = "''q9''" and t = openQuestion and env = delivers and now = "jan2024 8 17 0"
      and phone = "''(312) 555-0100''" and body = "''''" and s' = ?s and msg = "''''"]
  have a: "handleInteractiveResponse delivers (jan2024 8 17 0) ?s ''+13125550100'' ''E'' =
             (clearAwaitingResponse ?s ''+13125550100'', NotHandled)"
    using inst [where response = "''E''" and b = "''a''"] h by blast
  have b: "processIncomingMessage delivers (jan2024 8 17 0) ?s (Some ''(312) 555-0100'') (Some ''a'') =
             handleUnrecognizedMessage delivers (jan2024 8 17 0)
               (clearAwaitingResponse ?s ''+13125550100'') ''+13125550100'' ''a''"
    using inst [where response = "''A''" and b = "''a''"] h
    by (simp add: plain_phone clean_examples not_keywords)
  show ?thesis
    using a b h x by (simp add: help_text_for_ann)
qed

end
